theory Spec2Isabelle
  imports Complex_Main "HOL-Library.Word"
begin

section \<open>The Lighter order-execution engine (trader/lighter_trader.go)\<close>

text \<open>
  The engine is embedded function by function. External collaborators (the HTTP
  endpoints, the transaction client, the clock, \<open>strconv.ParseFloat\<close>) are fields of an
  environment record; every call the engine makes to one of them is appended to a
  history kept beside the trader's own fields, so that the order of the calls can be
  stated.

  Numbers. A \<open>float64\<close> is modelled by the rational number it denotes. Addition,
  multiplication and division compute the exact rational result and round it to the
  nearest number with a 53-bit significand, ties to even, as IEEE 754 does; a decimal
  constant of the source such as \<open>1.01\<close> is the rounded rational. The exponent is not
  bounded: there is no overflow to infinity, no subnormal number and no NaN. The
  conversion of a \<open>float64\<close> to an integer type discards the fraction (truncation
  towards zero), as the Go specification says; for a value outside the target type Go
  leaves the result to the implementation, and the model takes what the amd64 compiler
  produces. Fixed-width integers are words. Go's \<open>int\<close> (the leverage) is an \<open>int\<close>;
  the only arithmetic on it is one division of 10000, which cannot overflow.
\<close>

subsection \<open>Numbers\<close>

type_synonym float64 = rat
type_synonym uint8 = "8 word"
type_synonym uint16 = "16 word"
type_synonym uint32 = "32 word"
type_synonym int32 = "32 word"
type_synonym int64 = "64 word"

text \<open>Rounding to \<open>float64\<close>. \<open>bit_length n\<close> is the number of binary digits of a
  positive integer; \<open>binary_exponent x\<close> is the \<open>e\<close> with \<open>2^e \<le> x < 2^(e+1)\<close> for a
  positive \<open>x\<close>; \<open>round_float64 x\<close> is the multiple of \<open>2^(e-52)\<close> nearest to \<open>x\<close>,
  the even one of two that are equally near.\<close>

function bit_length :: "int \<Rightarrow> int" where
  "bit_length n = (if n \<le> 0 then 0 else 1 + bit_length (n div 2))"
  by pat_completeness auto
termination
  by (relation "measure nat") auto

declare bit_length.simps [simp del]

definition pow2 :: "int \<Rightarrow> rat" where
  "pow2 k = (if 0 \<le> k then 2 ^ nat k else 1 / 2 ^ nat (- k))"

definition binary_exponent :: "rat \<Rightarrow> int" where
  "binary_exponent x =
     (let (a, b) = quotient_of x;
          k = bit_length a - bit_length b
      in if pow2 k \<le> x then k else k - 1)"

definition round_half_even :: "rat \<Rightarrow> int" where
  "round_half_even y =
     (let f = \<lfloor>y\<rfloor>; r = y - of_int f
      in if r < 1 / 2 then f
         else if 1 / 2 < r then f + 1
         else if even f then f else f + 1)"

definition round_float64 :: "rat \<Rightarrow> float64" where
  "round_float64 x =
     (if x = 0 then 0
      else let u = pow2 (binary_exponent \<bar>x\<bar> - 52)
           in sgn x * of_int (round_half_even (\<bar>x\<bar> / u)) * u)"

text \<open>The arithmetic of \<open>float64\<close>: the exact result, rounded.\<close>

definition fadd :: "float64 \<Rightarrow> float64 \<Rightarrow> float64" where
  "fadd x y = round_float64 (x + y)"

definition fmul :: "float64 \<Rightarrow> float64 \<Rightarrow> float64" where
  "fmul x y = round_float64 (x * y)"

definition fdiv :: "float64 \<Rightarrow> float64 \<Rightarrow> float64" where
  "fdiv x y = round_float64 (x / y)"

text \<open>Go's integer division truncates towards zero; division by zero is a run-time panic
  and is checked by the caller of \<open>go_quot\<close>.\<close>

definition go_quot :: "int \<Rightarrow> int \<Rightarrow> int" where
  "go_quot a b = sgn a * sgn b * (\<bar>a\<bar> div \<bar>b\<bar>)"

definition trunc_float64 :: "float64 \<Rightarrow> int" where
  "trunc_float64 x = (if x < 0 then - \<lfloor>- x\<rfloor> else \<lfloor>x\<rfloor>)"

text \<open>\<open>int64(x)\<close> for a \<open>float64\<close> x. Out of range, amd64 yields the minimal int64.\<close>

definition int64_of_float64 :: "float64 \<Rightarrow> int64" where
  "int64_of_float64 x =
     (let n = trunc_float64 x
      in if - (2 ^ 63) \<le> n \<and> n < 2 ^ 63 then word_of_int n else 2 ^ 63)"

text \<open>\<open>uint32(x)\<close> for a \<open>float64\<close> x: on amd64 the low 32 bits of the 64-bit conversion.\<close>

definition uint32_of_float64 :: "float64 \<Rightarrow> uint32" where
  "uint32_of_float64 x = ucast (int64_of_float64 x)"

definition absFloat64 :: "float64 \<Rightarrow> float64" where
  "absFloat64 x = (if x < 0 then - x else x)"

subsection \<open>Market metadata\<close>

record lighterOrderBook =
  ob_Symbol :: string
  ob_MarketID :: uint8
  ob_Status :: string
  ob_TakerFee :: string
  ob_MakerFee :: string
  ob_LiquidationFee :: string
  ob_MinBaseAmount :: string
  ob_MinQuoteAmount :: string
  ob_SupportedSizeDecimals :: uint8
  ob_SupportedPriceDecimals :: uint8
  ob_SupportedQuoteDecimals :: uint8

record lighterOrderBooksResponse =
  obr_Code :: int32
  obr_Message :: string
  obr_OrderBooks :: "lighterOrderBook list"

type_synonym market_cache = "string \<rightharpoonup> lighterOrderBook"

subsection \<open>Symbols\<close>

text \<open>Go strings are byte strings and \<open>len\<close> counts bytes, as \<open>length\<close> does on a
  \<open>string\<close>. The slices \<open>symbol[len-4:]\<close> and \<open>symbol[:len-4]\<close> are in range under the
  guard \<open>len(symbol) > 4\<close>.\<close>

definition convertSymbolToLighterCoin :: "string \<Rightarrow> string" where
  "convertSymbolToLighterCoin symbol =
     (if length symbol > 4 \<and> drop (length symbol - 4) symbol = ''USDT''
      then take (length symbol - 4) symbol
      else symbol)"

subsection \<open>Numeric codec\<close>

text \<open>The loop \<open>for i := uint8(0); i < decimals; i++ { multiplier *= 10.0 }\<close>, entered
  with \<open>i\<close> and \<open>multiplier\<close>.\<close>

function multiplier_loop :: "uint8 \<Rightarrow> uint8 \<Rightarrow> float64 \<Rightarrow> float64" where
  "multiplier_loop i decimals multiplier =
     (if i < decimals then multiplier_loop (i + 1) decimals (fmul multiplier 10)
      else multiplier)"
  by pat_completeness auto
termination
proof (relation "measure (\<lambda>(i, decimals, multiplier). unat decimals - unat i)")
  show "wf (measure (\<lambda>(i, decimals, multiplier). unat decimals - unat i))"
    by simp
next
  fix i decimals :: uint8 and multiplier :: float64
  assume lt: "i < decimals"
  then have "unat i < unat decimals"
    by (simp add: word_less_nat_alt)
  moreover have "unat decimals < 2 ^ 8"
    using unsigned_less [of decimals] by simp
  ultimately have "unat i < unat decimals" and "unat i + unat (1 :: uint8) < 2 ^ LENGTH(8)"
    by simp_all
  then have "unat decimals - unat (i + 1) < unat decimals - unat i"
    by (simp add: unat_add_lem [THEN iffD1])
  then show "((i + 1, decimals, fmul multiplier 10), (i, decimals, multiplier))
      \<in> measure (\<lambda>(i, decimals, multiplier). unat decimals - unat i)"
    by simp
qed

declare multiplier_loop.simps [simp del]

definition convertToBaseAmount :: "market_cache \<Rightarrow> string \<Rightarrow> float64 \<Rightarrow> int64" where
  "convertToBaseAmount cache symbol quantity =
     (let coin = convertSymbolToLighterCoin symbol
      in case cache coin of
           Some marketInfo \<Rightarrow>
             int64_of_float64
               (fmul quantity (multiplier_loop 0 (ob_SupportedSizeDecimals marketInfo) 1))
         | None \<Rightarrow> int64_of_float64 (fmul quantity 10000))"

definition convertToLighterPrice :: "market_cache \<Rightarrow> string \<Rightarrow> float64 \<Rightarrow> uint32" where
  "convertToLighterPrice cache symbol price =
     (let coin = convertSymbolToLighterCoin symbol
      in case cache coin of
           Some marketInfo \<Rightarrow>
             uint32_of_float64
               (fmul price (multiplier_loop 0 (ob_SupportedPriceDecimals marketInfo) 1))
         | None \<Rightarrow> uint32_of_float64 (fmul price 10000))"

subsection \<open>Errors\<close>

text \<open>An error of an external collaborator is its message. The engine's own errors
  are one constructor for each \<open>fmt.Errorf\<close> of the source, with the arguments it
  formats; the run-time panic of an integer division by zero is a value as well.\<close>

type_synonym ext_error = string

datatype error =
    ErrGetMarketInfo ext_error
  | ErrGetAccount ext_error
  | ErrGetMarketPrice ext_error
  | ErrReadResponse ext_error
  | ErrApiStatus int string
  | ErrParseResponse ext_error
  | ErrApiMessage string
  | ErrMarketIndexNotFound string
  | ErrMarketInfoNotFound string
  | ErrPriceUnavailable string
  | ErrSetLeverage ext_error
  | ErrOpenLong ext_error
  | ErrOpenShort ext_error
  | ErrCloseLong ext_error
  | ErrCloseShort ext_error
  | ErrNoLongPosition string
  | ErrNoShortPosition string
  | ErrCancelAllOrders ext_error
  | PanicDivideByZero

subsection \<open>Account snapshot\<close>

record lighterAccountPosition =
  ap_MarketID :: uint8
  ap_Symbol :: string
  ap_InitialMarginFraction :: string
  ap_Sign :: int32
  ap_Position :: string
  ap_AvgEntryPrice :: string
  ap_PositionValue :: string
  ap_UnrealizedPnl :: string
  ap_RealizedPnl :: string
  ap_LiquidationPrice :: string
  ap_MarginMode :: int32
  ap_AllocatedMargin :: string

record lighterAccount =
  ac_Index :: int64
  ac_AvailableBalance :: string
  ac_Collateral :: string
  ac_Positions :: "lighterAccountPosition list"

record lighterAccountResponse =
  ar_Code :: int32
  ar_Message :: string
  ar_Total :: int64
  ar_Accounts :: "lighterAccount list"

text \<open>One element of the result of \<open>GetPositions\<close>: the source builds a
  \<open>map[string]interface{}\<close> with exactly these eight keys.\<close>

record posMap =
  pm_symbol :: string
  pm_side :: string
  pm_positionAmt :: float64
  pm_entryPrice :: float64
  pm_markPrice :: float64
  pm_unRealizedProfit :: float64
  pm_leverage :: float64
  pm_liquidationPrice :: float64

subsection \<open>Transaction requests of the lighter-go client\<close>

text \<open>The request types and their constants belong to the lighter-go library. The
  enumerated constants the engine uses are datatypes here; the sentinels
  \<open>NilOrderTriggerPrice\<close> and \<open>NilOrderExpiry\<close> are \<open>None\<close>.\<close>

datatype order_type = LimitOrder | StopLossOrder | TakeProfitOrder
datatype time_in_force = ImmediateOrCancel
datatype cancel_all_time_in_force = ImmediateCancelAll
datatype margin_mode = CrossMargin

record CreateOrderTxReq =
  co_MarketIndex :: uint8
  co_ClientOrderIndex :: int
  co_BaseAmount :: int64
  co_Price :: uint32
  co_IsAsk :: uint8
  co_Type :: order_type
  co_TimeInForce :: time_in_force
  co_ReduceOnly :: uint8
  co_TriggerPrice :: "uint32 option"
  co_OrderExpiry :: "int option"

record CancelAllOrdersTxReq =
  ca_TimeInForce :: cancel_all_time_in_force
  ca_Time :: int

record UpdateLeverageTxReq =
  ul_MarketIndex :: uint8
  ul_InitialMarginFraction :: uint16
  ul_MarginMode :: margin_mode

subsection \<open>JSON values\<close>

text \<open>\<open>GetMarketPrice\<close> decodes the order-book detail into a
  \<open>map[string]interface{}\<close> and inspects it with type assertions. An object is the
  list of its entries, every key once; \<open>map_of\<close> looks a key up.\<close>

datatype json =
    JNull
  | JBool bool
  | JNumber float64
  | JString string
  | JArray "json list"
  | JObject "(string \<times> json) list"

subsection \<open>The environment and the trader\<close>

text \<open>An HTTP GET as the engine sees it: \<open>http.Get\<close> fails, or \<open>io.ReadAll\<close> fails,
  or there is a status code and a body, together with what \<open>json.Unmarshal\<close> makes of
  the body.\<close>

datatype 'a http_result =
    GetFailed ext_error
  | ReadFailed ext_error
  | Response int string "ext_error + 'a"

text \<open>Every external call, with what identifies it.\<close>

datatype call =
    CallGetOrderBooks
  | CallGetAccount int
  | CallGetOrderBookDetails uint8
  | CallCancelAllOrders CancelAllOrdersTxReq
  | CallUpdateLeverage UpdateLeverageTxReq
  | CallCreateOrder CreateOrderTxReq

text \<open>The collaborators. The first argument of each is the number of external calls the
  engine has made so far, so that the same request may be answered differently at
  different moments. \<open>Now\<close> is the clock: the Unix time in nanoseconds. The transaction
  client answers with the signed hash or with an error. \<open>ParseFloat\<close> returns its value
  together with its error, because the source often ignores the error and uses the
  value.\<close>

record env =
  ParseFloat :: "string \<Rightarrow> float64 \<times> ext_error option"
  Now :: "nat \<Rightarrow> int"
  httpGetOrderBooks :: "nat \<Rightarrow> lighterOrderBooksResponse http_result"
  httpGetAccount :: "nat \<Rightarrow> int \<Rightarrow> lighterAccountResponse http_result"
  httpGetOrderBookDetails :: "nat \<Rightarrow> uint8 \<Rightarrow> (string \<times> json) list http_result"
  GetCancelAllOrdersTransaction :: "nat \<Rightarrow> CancelAllOrdersTxReq \<Rightarrow> ext_error + string"
  GetUpdateLeverageTransaction :: "nat \<Rightarrow> UpdateLeverageTxReq \<Rightarrow> ext_error + string"
  GetCreateOrderTransaction :: "nat \<Rightarrow> CreateOrderTxReq \<Rightarrow> ext_error + string"

text \<open>The trader: the account index and the cache of the struct, and \<open>calls\<close>, the
  external calls made so far, oldest first. The endpoint and the two clients of the
  struct never change; they are the environment.\<close>

record LighterTrader =
  accountIndex :: int
  marketInfoCache :: market_cache
  calls :: "call list"

definition UnixMilli :: "int \<Rightarrow> int" where
  "UnixMilli ns = ns div 1000000"

subsection \<open>Market metadata cache\<close>

text \<open>The loop of \<open>loadMarketInfo\<close> that stores each fetched market under its symbol.\<close>

fun store_markets :: "lighterOrderBook list \<Rightarrow> market_cache \<Rightarrow> market_cache" where
  "store_markets [] cache = cache"
| "store_markets (market # rest) cache = store_markets rest (cache(ob_Symbol market \<mapsto> market))"

definition loadMarketInfo :: "env \<Rightarrow> LighterTrader \<Rightarrow> (error + unit) \<times> LighterTrader" where
  "loadMarketInfo e t =
     (let t1 = t\<lparr>calls := calls t @ [CallGetOrderBooks]\<rparr>
      in case httpGetOrderBooks e (length (calls t)) of
           GetFailed x \<Rightarrow> (Inl (ErrGetMarketInfo x), t1)
         | ReadFailed x \<Rightarrow> (Inl (ErrReadResponse x), t1)
         | Response status body decoded \<Rightarrow>
             if status \<noteq> 200 then (Inl (ErrApiStatus status body), t1)
             else (case decoded of
                     Inl x \<Rightarrow> (Inl (ErrParseResponse x), t1)
                   | Inr orderBooksResp \<Rightarrow>
                       if obr_Code orderBooksResp \<noteq> 200
                       then (Inl (ErrApiMessage (obr_Message orderBooksResp)), t1)
                       else (Inr (),
                             t1\<lparr>marketInfoCache :=
                                  store_markets (obr_OrderBooks orderBooksResp)
                                    (marketInfoCache t1)\<rparr>)))"

definition getMarketIndex ::
    "env \<Rightarrow> LighterTrader \<Rightarrow> string \<Rightarrow> (error + uint8) \<times> LighterTrader" where
  "getMarketIndex e t symbol =
     (let coin = convertSymbolToLighterCoin symbol
      in case marketInfoCache t coin of
           Some marketInfo \<Rightarrow> (Inr (ob_MarketID marketInfo), t)
         | None \<Rightarrow>
             (case loadMarketInfo e t of
                (Inl err, t1) \<Rightarrow> (Inl (ErrMarketIndexNotFound symbol), t1)
              | (Inr _, t1) \<Rightarrow>
                  (case marketInfoCache t1 coin of
                     None \<Rightarrow> (Inl (ErrMarketIndexNotFound symbol), t1)
                   | Some marketInfo \<Rightarrow> (Inr (ob_MarketID marketInfo), t1))))"

subsection \<open>Account snapshot reader\<close>

definition make_posMap ::
    "(string \<Rightarrow> float64 \<times> ext_error option) \<Rightarrow> lighterAccountPosition \<Rightarrow> float64 \<Rightarrow> posMap" where
  "make_posMap pf pos position =
     (let symbol = ap_Symbol pos @ ''USDT'';
          side = (if 0 < sint (ap_Sign pos) then ''long'' else ''short'');
          positionAmt = (if 0 < sint (ap_Sign pos) then position else absFloat64 position);
          entryPrice = fst (pf (ap_AvgEntryPrice pos));
          positionValue = fst (pf (ap_PositionValue pos));
          unrealizedPnl = fst (pf (ap_UnrealizedPnl pos));
          liquidationPrice = fst (pf (ap_LiquidationPrice pos));
          markPrice = (if position \<noteq> 0 then fdiv positionValue (absFloat64 position) else 0);
          imf = fst (pf (ap_InitialMarginFraction pos));
          leverage = (if imf > 0 then fdiv 100 imf else 0)
      in \<lparr>pm_symbol = symbol, pm_side = side, pm_positionAmt = positionAmt,
          pm_entryPrice = entryPrice, pm_markPrice = markPrice,
          pm_unRealizedProfit = unrealizedPnl, pm_leverage = leverage,
          pm_liquidationPrice = liquidationPrice\<rparr>)"

text \<open>The loop over \<open>account.Positions\<close>: a position whose parsed quantity is 0 is
  skipped, every other one is appended to the result.\<close>

fun positions_loop ::
    "(string \<Rightarrow> float64 \<times> ext_error option) \<Rightarrow> lighterAccountPosition list \<Rightarrow> posMap list" where
  "positions_loop pf [] = []"
| "positions_loop pf (pos # rest) =
     (let position = fst (pf (ap_Position pos))
      in if position = 0 then positions_loop pf rest
         else make_posMap pf pos position # positions_loop pf rest)"

definition GetPositions :: "env \<Rightarrow> LighterTrader \<Rightarrow> (error + posMap list) \<times> LighterTrader" where
  "GetPositions e t =
     (let t1 = t\<lparr>calls := calls t @ [CallGetAccount (accountIndex t)]\<rparr>
      in case httpGetAccount e (length (calls t)) (accountIndex t) of
           GetFailed x \<Rightarrow> (Inl (ErrGetAccount x), t1)
         | ReadFailed x \<Rightarrow> (Inl (ErrReadResponse x), t1)
         | Response status body decoded \<Rightarrow>
             if status \<noteq> 200 then (Inl (ErrApiStatus status body), t1)
             else (case decoded of
                     Inl x \<Rightarrow> (Inl (ErrParseResponse x), t1)
                   | Inr accountResp \<Rightarrow>
                       if ar_Code accountResp \<noteq> 200
                       then (Inl (ErrApiMessage (ar_Message accountResp)), t1)
                       else (case ar_Accounts accountResp of
                               [] \<Rightarrow> (Inr [], t1)
                             | account # _ \<Rightarrow>
                                 (Inr (positions_loop (ParseFloat e) (ac_Positions account)),
                                  t1))))"

subsection \<open>Price\<close>

text \<open>The price of the first level of one side of the book, \<open>asks[0].price\<close> or
  \<open>bids[0].price\<close>, when every type assertion on the way succeeds; 0 otherwise.\<close>

definition first_level_price ::
    "(string \<Rightarrow> float64 \<times> ext_error option) \<Rightarrow> json option \<Rightarrow> float64" where
  "first_level_price pf side =
     (case side of
        Some (JArray (JObject level # _)) \<Rightarrow>
          (case map_of level ''price'' of
             Some (JString priceStr) \<Rightarrow> fst (pf priceStr)
           | _ \<Rightarrow> 0)
      | _ \<Rightarrow> 0)"

definition mid_price ::
    "(string \<Rightarrow> float64 \<times> ext_error option) \<Rightarrow> (string \<times> json) list \<Rightarrow> string \<Rightarrow> error + float64" where
  "mid_price pf orderBookDetail symbol =
     (let askPrice = first_level_price pf (map_of orderBookDetail ''asks'');
          bidPrice = first_level_price pf (map_of orderBookDetail ''bids'')
      in if askPrice > 0 \<and> bidPrice > 0 then Inr (fdiv (fadd askPrice bidPrice) 2)
         else Inl (ErrPriceUnavailable symbol))"

definition price_of_detail ::
    "(string \<Rightarrow> float64 \<times> ext_error option) \<Rightarrow> (string \<times> json) list \<Rightarrow> string \<Rightarrow> error + float64" where
  "price_of_detail pf orderBookDetail symbol =
     (case map_of orderBookDetail ''mark_price'' of
        Some (JString markPriceStr) \<Rightarrow>
          (case pf markPriceStr of
             (markPrice, None) \<Rightarrow> Inr markPrice
           | (_, Some _) \<Rightarrow> mid_price pf orderBookDetail symbol)
      | _ \<Rightarrow> mid_price pf orderBookDetail symbol)"

definition GetMarketPrice ::
    "env \<Rightarrow> LighterTrader \<Rightarrow> string \<Rightarrow> (error + float64) \<times> LighterTrader" where
  "GetMarketPrice e t symbol =
     (let coin = convertSymbolToLighterCoin symbol
      in case marketInfoCache t coin of
           None \<Rightarrow> (Inl (ErrMarketInfoNotFound symbol), t)
         | Some marketInfo \<Rightarrow>
             (let t1 = t\<lparr>calls := calls t @ [CallGetOrderBookDetails (ob_MarketID marketInfo)]\<rparr>
              in case httpGetOrderBookDetails e (length (calls t)) (ob_MarketID marketInfo) of
                   GetFailed x \<Rightarrow> (Inl (ErrGetMarketPrice x), t1)
                 | ReadFailed x \<Rightarrow> (Inl (ErrReadResponse x), t1)
                 | Response status body decoded \<Rightarrow>
                     if status \<noteq> 200 then (Inl (ErrApiStatus status body), t1)
                     else (case decoded of
                             Inl x \<Rightarrow> (Inl (ErrParseResponse x), t1)
                           | Inr orderBookDetail \<Rightarrow>
                               (price_of_detail (ParseFloat e) orderBookDetail symbol, t1))))"

subsection \<open>Order workflow\<close>

text \<open>The symbol is not used: the request carries a time-in-force and a time only.\<close>

definition CancelAllOrders ::
    "env \<Rightarrow> LighterTrader \<Rightarrow> string \<Rightarrow> (error + unit) \<times> LighterTrader" where
  "CancelAllOrders e t symbol =
     (let cancelAllTx = \<lparr>ca_TimeInForce = ImmediateCancelAll,
                         ca_Time = UnixMilli (Now e (length (calls t)))\<rparr>;
          t1 = t\<lparr>calls := calls t @ [CallCancelAllOrders cancelAllTx]\<rparr>
      in case GetCancelAllOrdersTransaction e (length (calls t)) cancelAllTx of
           Inl x \<Rightarrow> (Inl (ErrCancelAllOrders x), t1)
         | Inr txInfo \<Rightarrow> (Inr (), t1))"

text \<open>\<open>imf := uint16(10000 / leverage)\<close>: the division panics when \<open>leverage\<close> is 0, and
  the conversion keeps the low 16 bits.\<close>

definition SetLeverage ::
    "env \<Rightarrow> LighterTrader \<Rightarrow> string \<Rightarrow> int \<Rightarrow> (error + unit) \<times> LighterTrader" where
  "SetLeverage e t symbol leverage =
     (case getMarketIndex e t symbol of
        (Inl err, t1) \<Rightarrow> (Inl err, t1)
      | (Inr marketIndex, t1) \<Rightarrow>
          if leverage = 0 then (Inl PanicDivideByZero, t1)
          else (let imf = (word_of_int (go_quot 10000 leverage) :: uint16);
                    updateLeverageTx = \<lparr>ul_MarketIndex = marketIndex,
                                         ul_InitialMarginFraction = imf,
                                         ul_MarginMode = CrossMargin\<rparr>;
                    t2 = t1\<lparr>calls := calls t1 @ [CallUpdateLeverage updateLeverageTx]\<rparr>
                in case GetUpdateLeverageTransaction e (length (calls t1)) updateLeverageTx of
                     Inl x \<Rightarrow> (Inl (ErrSetLeverage x), t2)
                   | Inr txInfo \<Rightarrow> (Inr (), t2)))"

text \<open>The result map of the four order operations.\<close>

record orderResult =
  or_orderId :: int
  or_symbol :: string
  or_status :: string
  or_hash :: string

text \<open>\<open>OpenLong\<close> and \<open>OpenShort\<close>. The error of the first \<open>CancelAllOrders\<close> is
  logged and dropped. The constants 1.01 and 0.99 are the nearest \<open>float64\<close>.
  \<open>clientOrderIndex\<close> is \<open>time.Now().UnixNano() / 1000000\<close>.\<close>

definition OpenLong ::
    "env \<Rightarrow> LighterTrader \<Rightarrow> string \<Rightarrow> float64 \<Rightarrow> int \<Rightarrow> (error + orderResult) \<times> LighterTrader" where
  "OpenLong e t symbol quantity leverage =
     (let t1 = snd (CancelAllOrders e t symbol)
      in case SetLeverage e t1 symbol leverage of
           (Inl err, t2) \<Rightarrow> (Inl err, t2)
         | (Inr _, t2) \<Rightarrow>
             (case getMarketIndex e t2 symbol of
                (Inl err, t3) \<Rightarrow> (Inl err, t3)
              | (Inr marketIndex, t3) \<Rightarrow>
                  (case GetMarketPrice e t3 symbol of
                     (Inl err, t4) \<Rightarrow> (Inl err, t4)
                   | (Inr price, t4) \<Rightarrow>
                       (let baseAmount = convertToBaseAmount (marketInfoCache t4) symbol quantity;
                            lighterPrice =
                              convertToLighterPrice (marketInfoCache t4) symbol
                                (fmul price (round_float64 (101 / 100)));
                            clientOrderIndex = go_quot (Now e (length (calls t4))) 1000000;
                            createOrderTx =
                              \<lparr>co_MarketIndex = marketIndex,
                               co_ClientOrderIndex = clientOrderIndex,
                               co_BaseAmount = baseAmount,
                               co_Price = lighterPrice,
                               co_IsAsk = 0,
                               co_Type = LimitOrder,
                               co_TimeInForce = ImmediateOrCancel,
                               co_ReduceOnly = 0,
                               co_TriggerPrice = None,
                               co_OrderExpiry = None\<rparr>;
                            t5 = t4\<lparr>calls := calls t4 @ [CallCreateOrder createOrderTx]\<rparr>
                        in case GetCreateOrderTransaction e (length (calls t4)) createOrderTx of
                             Inl x \<Rightarrow> (Inl (ErrOpenLong x), t5)
                           | Inr txInfo \<Rightarrow>
                               (Inr \<lparr>or_orderId = clientOrderIndex, or_symbol = symbol,
                                     or_status = ''PENDING'', or_hash = txInfo\<rparr>,
                                t5)))))"

definition OpenShort ::
    "env \<Rightarrow> LighterTrader \<Rightarrow> string \<Rightarrow> float64 \<Rightarrow> int \<Rightarrow> (error + orderResult) \<times> LighterTrader" where
  "OpenShort e t symbol quantity leverage =
     (let t1 = snd (CancelAllOrders e t symbol)
      in case SetLeverage e t1 symbol leverage of
           (Inl err, t2) \<Rightarrow> (Inl err, t2)
         | (Inr _, t2) \<Rightarrow>
             (case getMarketIndex e t2 symbol of
                (Inl err, t3) \<Rightarrow> (Inl err, t3)
              | (Inr marketIndex, t3) \<Rightarrow>
                  (case GetMarketPrice e t3 symbol of
                     (Inl err, t4) \<Rightarrow> (Inl err, t4)
                   | (Inr price, t4) \<Rightarrow>
                       (let baseAmount = convertToBaseAmount (marketInfoCache t4) symbol quantity;
                            lighterPrice =
                              convertToLighterPrice (marketInfoCache t4) symbol
                                (fmul price (round_float64 (99 / 100)));
                            clientOrderIndex = go_quot (Now e (length (calls t4))) 1000000;
                            createOrderTx =
                              \<lparr>co_MarketIndex = marketIndex,
                               co_ClientOrderIndex = clientOrderIndex,
                               co_BaseAmount = baseAmount,
                               co_Price = lighterPrice,
                               co_IsAsk = 1,
                               co_Type = LimitOrder,
                               co_TimeInForce = ImmediateOrCancel,
                               co_ReduceOnly = 0,
                               co_TriggerPrice = None,
                               co_OrderExpiry = None\<rparr>;
                            t5 = t4\<lparr>calls := calls t4 @ [CallCreateOrder createOrderTx]\<rparr>
                        in case GetCreateOrderTransaction e (length (calls t4)) createOrderTx of
                             Inl x \<Rightarrow> (Inl (ErrOpenShort x), t5)
                           | Inr txInfo \<Rightarrow>
                               (Inr \<lparr>or_orderId = clientOrderIndex, or_symbol = symbol,
                                     or_status = ''PENDING'', or_hash = txInfo\<rparr>,
                                t5)))))"

text \<open>The loop of \<open>CloseLong\<close> and \<open>CloseShort\<close> over the positions: the amount of the
  first position of that symbol and side replaces the quantity; the loop stops there.\<close>

fun find_positionAmt :: "string \<Rightarrow> string \<Rightarrow> posMap list \<Rightarrow> float64 \<Rightarrow> float64" where
  "find_positionAmt symbol side [] quantity = quantity"
| "find_positionAmt symbol side (pos # rest) quantity =
     (if pm_symbol pos = symbol \<and> pm_side pos = side then pm_positionAmt pos
      else find_positionAmt symbol side rest quantity)"

text \<open>\<open>CloseLong\<close> and \<open>CloseShort\<close>. \<open>quantity0\<close> is the parameter as passed; the
  first step yields the quantity to close, or returns. After a submission that
  succeeded, \<open>CancelAllOrders\<close> runs and its error is logged and dropped.\<close>

definition CloseLong ::
    "env \<Rightarrow> LighterTrader \<Rightarrow> string \<Rightarrow> float64 \<Rightarrow> (error + orderResult) \<times> LighterTrader" where
  "CloseLong e t symbol quantity0 =
     (case (if quantity0 = 0
            then (case GetPositions e t of
                    (Inl err, t1) \<Rightarrow> (Inl err, t1)
                  | (Inr positions, t1) \<Rightarrow>
                      (let quantity = find_positionAmt symbol ''long'' positions quantity0
                       in if quantity = 0 then (Inl (ErrNoLongPosition symbol), t1)
                          else (Inr quantity, t1)))
            else (Inr quantity0, t)) of
        (Inl err, t1) \<Rightarrow> (Inl err, t1)
      | (Inr quantity, t1) \<Rightarrow>
          (case getMarketIndex e t1 symbol of
             (Inl err, t2) \<Rightarrow> (Inl err, t2)
           | (Inr marketIndex, t2) \<Rightarrow>
               (case GetMarketPrice e t2 symbol of
                  (Inl err, t3) \<Rightarrow> (Inl err, t3)
                | (Inr price, t3) \<Rightarrow>
                    (let baseAmount = convertToBaseAmount (marketInfoCache t3) symbol quantity;
                         lighterPrice =
                           convertToLighterPrice (marketInfoCache t3) symbol
                             (fmul price (round_float64 (99 / 100)));
                         clientOrderIndex = go_quot (Now e (length (calls t3))) 1000000;
                         createOrderTx =
                           \<lparr>co_MarketIndex = marketIndex,
                            co_ClientOrderIndex = clientOrderIndex,
                            co_BaseAmount = baseAmount,
                            co_Price = lighterPrice,
                            co_IsAsk = 1,
                            co_Type = LimitOrder,
                            co_TimeInForce = ImmediateOrCancel,
                            co_ReduceOnly = 1,
                            co_TriggerPrice = None,
                            co_OrderExpiry = None\<rparr>;
                         t4 = t3\<lparr>calls := calls t3 @ [CallCreateOrder createOrderTx]\<rparr>
                     in case GetCreateOrderTransaction e (length (calls t3)) createOrderTx of
                          Inl x \<Rightarrow> (Inl (ErrCloseLong x), t4)
                        | Inr txInfo \<Rightarrow>
                            (let t5 = snd (CancelAllOrders e t4 symbol)
                             in (Inr \<lparr>or_orderId = clientOrderIndex, or_symbol = symbol,
                                      or_status = ''PENDING'', or_hash = txInfo\<rparr>,
                                 t5))))))"

definition CloseShort ::
    "env \<Rightarrow> LighterTrader \<Rightarrow> string \<Rightarrow> float64 \<Rightarrow> (error + orderResult) \<times> LighterTrader" where
  "CloseShort e t symbol quantity0 =
     (case (if quantity0 = 0
            then (case GetPositions e t of
                    (Inl err, t1) \<Rightarrow> (Inl err, t1)
                  | (Inr positions, t1) \<Rightarrow>
                      (let quantity = find_positionAmt symbol ''short'' positions quantity0
                       in if quantity = 0 then (Inl (ErrNoShortPosition symbol), t1)
                          else (Inr quantity, t1)))
            else (Inr quantity0, t)) of
        (Inl err, t1) \<Rightarrow> (Inl err, t1)
      | (Inr quantity, t1) \<Rightarrow>
          (case getMarketIndex e t1 symbol of
             (Inl err, t2) \<Rightarrow> (Inl err, t2)
           | (Inr marketIndex, t2) \<Rightarrow>
               (case GetMarketPrice e t2 symbol of
                  (Inl err, t3) \<Rightarrow> (Inl err, t3)
                | (Inr price, t3) \<Rightarrow>
                    (let baseAmount = convertToBaseAmount (marketInfoCache t3) symbol quantity;
                         lighterPrice =
                           convertToLighterPrice (marketInfoCache t3) symbol
                             (fmul price (round_float64 (101 / 100)));
                         clientOrderIndex = go_quot (Now e (length (calls t3))) 1000000;
                         createOrderTx =
                           \<lparr>co_MarketIndex = marketIndex,
                            co_ClientOrderIndex = clientOrderIndex,
                            co_BaseAmount = baseAmount,
                            co_Price = lighterPrice,
                            co_IsAsk = 0,
                            co_Type = LimitOrder,
                            co_TimeInForce = ImmediateOrCancel,
                            co_ReduceOnly = 1,
                            co_TriggerPrice = None,
                            co_OrderExpiry = None\<rparr>;
                         t4 = t3\<lparr>calls := calls t3 @ [CallCreateOrder createOrderTx]\<rparr>
                     in case GetCreateOrderTransaction e (length (calls t3)) createOrderTx of
                          Inl x \<Rightarrow> (Inl (ErrCloseShort x), t4)
                        | Inr txInfo \<Rightarrow>
                            (let t5 = snd (CancelAllOrders e t4 symbol)
                             in (Inr \<lparr>or_orderId = clientOrderIndex, or_symbol = symbol,
                                      or_status = ''PENDING'', or_hash = txInfo\<rparr>,
                                 t5))))))"

subsection \<open>Kinds of calls\<close>

text \<open>The three HTTP GETs read from the exchange; the three transaction requests
  change something there.\<close>

fun is_query :: "call \<Rightarrow> bool" where
  "is_query CallGetOrderBooks = True"
| "is_query (CallGetAccount _) = True"
| "is_query (CallGetOrderBookDetails _) = True"
| "is_query (CallCancelAllOrders _) = False"
| "is_query (CallUpdateLeverage _) = False"
| "is_query (CallCreateOrder _) = False"

text \<open>The calls made between two states of the trader.\<close>

definition new_calls :: "LighterTrader \<Rightarrow> LighterTrader \<Rightarrow> call list" where
  "new_calls t t' = drop (length (calls t)) (calls t')"

text \<open>Only queries were made between two states of the trader.\<close>

definition only_queries :: "LighterTrader \<Rightarrow> LighterTrader \<Rightarrow> bool" where
  "only_queries t t' \<longleftrightarrow> (\<exists>pre. calls t' = calls t @ pre \<and> list_all is_query pre)"

text \<open>\<open>CloseLong\<close> and \<open>CloseShort\<close> differ in the side they look for, the price
  factor, the \<open>IsAsk\<close> bit and their two errors. \<open>close_position\<close> is the text they
  share, with these as parameters; it serves the proofs.\<close>

definition close_position ::
    "string \<Rightarrow> float64 \<Rightarrow> uint8 \<Rightarrow> (ext_error \<Rightarrow> error) \<Rightarrow> (string \<Rightarrow> error) \<Rightarrow>
     env \<Rightarrow> LighterTrader \<Rightarrow> string \<Rightarrow> float64 \<Rightarrow> (error + orderResult) \<times> LighterTrader" where
  "close_position side factor isAsk submitErr noPositionErr e t symbol quantity0 =
     (case (if quantity0 = 0
            then (case GetPositions e t of
                    (Inl err, t1) \<Rightarrow> (Inl err, t1)
                  | (Inr positions, t1) \<Rightarrow>
                      (let quantity = find_positionAmt symbol side positions quantity0
                       in if quantity = 0 then (Inl (noPositionErr symbol), t1)
                          else (Inr quantity, t1)))
            else (Inr quantity0, t)) of
        (Inl err, t1) \<Rightarrow> (Inl err, t1)
      | (Inr quantity, t1) \<Rightarrow>
          (case getMarketIndex e t1 symbol of
             (Inl err, t2) \<Rightarrow> (Inl err, t2)
           | (Inr marketIndex, t2) \<Rightarrow>
               (case GetMarketPrice e t2 symbol of
                  (Inl err, t3) \<Rightarrow> (Inl err, t3)
                | (Inr price, t3) \<Rightarrow>
                    (let baseAmount = convertToBaseAmount (marketInfoCache t3) symbol quantity;
                         lighterPrice =
                           convertToLighterPrice (marketInfoCache t3) symbol (fmul price factor);
                         clientOrderIndex = go_quot (Now e (length (calls t3))) 1000000;
                         createOrderTx =
                           \<lparr>co_MarketIndex = marketIndex,
                            co_ClientOrderIndex = clientOrderIndex,
                            co_BaseAmount = baseAmount,
                            co_Price = lighterPrice,
                            co_IsAsk = isAsk,
                            co_Type = LimitOrder,
                            co_TimeInForce = ImmediateOrCancel,
                            co_ReduceOnly = 1,
                            co_TriggerPrice = None,
                            co_OrderExpiry = None\<rparr>;
                         t4 = t3\<lparr>calls := calls t3 @ [CallCreateOrder createOrderTx]\<rparr>
                     in case GetCreateOrderTransaction e (length (calls t3)) createOrderTx of
                          Inl x \<Rightarrow> (Inl (submitErr x), t4)
                        | Inr txInfo \<Rightarrow>
                            (let t5 = snd (CancelAllOrders e t4 symbol)
                             in (Inr \<lparr>or_orderId = clientOrderIndex, or_symbol = symbol,
                                      or_status = ''PENDING'', or_hash = txInfo\<rparr>,
                                 t5))))))"

section \<open>A concrete scenario\<close>

text \<open>One market, one trader and one environment, used to run the engine on concrete
  inputs.\<close>

definition eth_market :: lighterOrderBook where
  "eth_market =
     \<lparr>ob_Symbol = ''ETH'', ob_MarketID = 0, ob_Status = ''active'',
      ob_TakerFee = ''0.0002'', ob_MakerFee = ''0.0000'', ob_LiquidationFee = ''0.01'',
      ob_MinBaseAmount = ''0.0050'', ob_MinQuoteAmount = ''10.000000'',
      ob_SupportedSizeDecimals = 4, ob_SupportedPriceDecimals = 2,
      ob_SupportedQuoteDecimals = 6\<rparr>"

definition example_cache :: market_cache where
  "example_cache = [''ETH'' \<mapsto> eth_market]"

definition doge_market :: lighterOrderBook where
  "doge_market =
     \<lparr>ob_Symbol = ''DOGE'', ob_MarketID = 3, ob_Status = ''active'',
      ob_TakerFee = ''0.0002'', ob_MakerFee = ''0.0000'', ob_LiquidationFee = ''0.01'',
      ob_MinBaseAmount = ''10'', ob_MinQuoteAmount = ''10.000000'',
      ob_SupportedSizeDecimals = 0, ob_SupportedPriceDecimals = 6,
      ob_SupportedQuoteDecimals = 6\<rparr>"

text \<open>A short position of 2.5 ETH, as the exchange reports it: the magnitude in
  \<open>position\<close>, the direction in \<open>sign\<close>.\<close>

definition short_eth :: lighterAccountPosition where
  "short_eth =
     \<lparr>ap_MarketID = 0, ap_Symbol = ''ETH'', ap_InitialMarginFraction = ''5'',
      ap_Sign = - 1, ap_Position = ''2.5'', ap_AvgEntryPrice = ''3000'',
      ap_PositionValue = ''7500'', ap_UnrealizedPnl = ''0'', ap_RealizedPnl = ''0'',
      ap_LiquidationPrice = ''0'', ap_MarginMode = 0, ap_AllocatedMargin = ''0''\<rparr>"

definition example_account :: lighterAccount where
  "example_account =
     \<lparr>ac_Index = 7, ac_AvailableBalance = ''1000'', ac_Collateral = ''1000'',
      ac_Positions = [short_eth]\<rparr>"

text \<open>\<open>ParseFloat\<close> on the few strings of the scenario; any other string is a syntax
  error, for which \<open>strconv.ParseFloat\<close> returns 0 and the error.\<close>

definition example_ParseFloat :: "string \<Rightarrow> float64 \<times> ext_error option" where
  "example_ParseFloat s =
     (if s = ''0'' then (0, None)
      else if s = ''5'' then (5, None)
      else if s = ''2.5'' then (5 / 2, None)
      else if s = ''3000'' then (3000, None)
      else if s = ''7500'' then (7500, None)
      else (0, Some ''invalid syntax''))"

text \<open>Every endpoint answers; the mark price of every market is 3000; the clock stands
  at 1700000000 seconds.\<close>

definition example_env :: env where
  "example_env =
     \<lparr>ParseFloat = example_ParseFloat,
      Now = (\<lambda>n. 1700000000000000000),
      httpGetOrderBooks = (\<lambda>n. Response 200 []
         (Inr \<lparr>obr_Code = 200, obr_Message = [], obr_OrderBooks = [eth_market]\<rparr>)),
      httpGetAccount = (\<lambda>n index. Response 200 []
         (Inr \<lparr>ar_Code = 200, ar_Message = [], ar_Total = 1,
               ar_Accounts = [example_account]\<rparr>)),
      httpGetOrderBookDetails = (\<lambda>n marketId. Response 200 []
         (Inr [(''mark_price'', JString ''3000'')])),
      GetCancelAllOrdersTransaction = (\<lambda>n req. Inr ''c0ffee''),
      GetUpdateLeverageTransaction = (\<lambda>n req. Inr ''c0ffee''),
      GetCreateOrderTransaction = (\<lambda>n req. Inr ''c0ffee'')\<rparr>"

text \<open>The same environment with a transaction client that refuses to create orders,
  and one with a transaction client that refuses leverage updates.\<close>

definition no_order_env :: env where
  "no_order_env = example_env\<lparr>GetCreateOrderTransaction := (\<lambda>n req. Inl ''refused'')\<rparr>"

definition no_leverage_env :: env where
  "no_leverage_env = example_env\<lparr>GetUpdateLeverageTransaction := (\<lambda>n req. Inl ''refused'')\<rparr>"

text \<open>A trader that knows the ETH market, and one whose cache still holds the DOGE
  market, which the exchange no longer lists.\<close>

definition example_trader :: LighterTrader where
  "example_trader = \<lparr>accountIndex = 7, marketInfoCache = example_cache, calls = []\<rparr>"

definition stale_trader :: LighterTrader where
  "stale_trader =
     \<lparr>accountIndex = 7, marketInfoCache = [''DOGE'' \<mapsto> doge_market], calls = []\<rparr>"

text \<open>The orders the scenario leads to: closing a long of 1 ETH, and opening a long
  of 0.01 ETH (the nearest \<open>float64\<close>), at the mark price 3000.\<close>

definition close_long_order :: CreateOrderTxReq where
  "close_long_order =
     \<lparr>co_MarketIndex = 0, co_ClientOrderIndex = 1700000000000, co_BaseAmount = 10000,
      co_Price = 297000, co_IsAsk = 1, co_Type = LimitOrder,
      co_TimeInForce = ImmediateOrCancel, co_ReduceOnly = 1, co_TriggerPrice = None,
      co_OrderExpiry = None\<rparr>"

definition open_long_order :: CreateOrderTxReq where
  "open_long_order =
     \<lparr>co_MarketIndex = 0, co_ClientOrderIndex = 1700000000000, co_BaseAmount = 100,
      co_Price = 303000, co_IsAsk = 0, co_Type = LimitOrder,
      co_TimeInForce = ImmediateOrCancel, co_ReduceOnly = 0, co_TriggerPrice = None,
      co_OrderExpiry = None\<rparr>"

section \<open>Properties\<close>

subsection \<open>Rounding\<close>

text \<open>The binary exponent is the right one.\<close>

lemma pow2_powi: "pow2 k = 2 powi k"
  by (simp add: pow2_def power_int_def power_inverse [symmetric] inverse_eq_divide power_one_over)

lemma bit_length_bounds:
  "0 < n \<Longrightarrow> 1 \<le> bit_length n \<and> 2 ^ nat (bit_length n - 1) \<le> n \<and> n < 2 ^ nat (bit_length n)"
proof (induction n rule: bit_length.induct)
  case (1 n)
  show ?case
  proof (cases "n div 2 = 0")
    case True
    with "1.prems" have "n = 1" by linarith
    then show ?thesis
      by (simp add: bit_length.simps [of 1] bit_length.simps [of 0])
  next
    case False
    with "1.prems" have p: "0 < n div 2" by linarith
    define k where "k = bit_length (n div 2)"
    from "1.IH" [OF _ p] "1.prems" have
      ih: "1 \<le> k" "2 ^ nat (k - 1) \<le> n div 2" "n div 2 < 2 ^ nat k"
      by (simp_all add: k_def)
    have b: "bit_length n = 1 + k"
      using "1.prems" by (subst bit_length.simps) (simp add: k_def)
    have n1: "nat k = Suc (nat (k - 1))" and n2: "nat (1 + k) = Suc (nat k)"
      using ih(1) by simp_all
    have "2 * 2 ^ nat (k - 1) \<le> n"
      using ih(2) by linarith
    then have "2 ^ nat k \<le> n"
      by (simp add: n1)
    moreover have "n < 2 * 2 ^ nat k"
      using ih(3) by linarith
    ultimately show ?thesis
      using ih(1) by (simp add: b n2)
  qed
qed

lemma binary_exponent_bounds:
  assumes "0 < x"
  shows "pow2 (binary_exponent x) \<le> x \<and> x < pow2 (binary_exponent x + 1)"
proof -
  obtain a b where q: "quotient_of x = (a, b)"
    by (cases "quotient_of x") blast
  have b: "0 < b" and x: "x = of_int a / of_int b"
    using quotient_of_denom_pos [OF q] quotient_of_div [OF q] by simp_all
  have a: "0 < a"
    using assms b x by (simp add: zero_less_divide_iff)
  define la where "la = bit_length a"
  define lb where "lb = bit_length b"
  define k where "k = la - lb"
  have A: "1 \<le> la" "2 ^ nat (la - 1) \<le> a" "a < 2 ^ nat la"
    using bit_length_bounds [OF a] by (simp_all add: la_def)
  have B: "1 \<le> lb" "2 ^ nat (lb - 1) \<le> b" "b < 2 ^ nat lb"
    using bit_length_bounds [OF b] by (simp_all add: lb_def)
  have p: "0 \<le> j \<Longrightarrow> (2::rat) ^ nat j = 2 powi j" for j
    by (simp add: power_int_def)
  have a_lo: "2 powi (la - 1) \<le> rat_of_int a"
  proof -
    have "rat_of_int (2 ^ nat (la - 1)) \<le> rat_of_int a"
      using A(2) by (simp only: of_int_le_iff)
    then show ?thesis using A(1) by (simp add: p [symmetric])
  qed
  have a_hi: "rat_of_int a < 2 powi la"
  proof -
    have "rat_of_int a < rat_of_int (2 ^ nat la)"
      using A(3) by (simp only: of_int_less_iff)
    then show ?thesis using A(1) by (simp add: p [symmetric])
  qed
  have b_lo: "2 powi (lb - 1) \<le> rat_of_int b"
  proof -
    have "rat_of_int (2 ^ nat (lb - 1)) \<le> rat_of_int b"
      using B(2) by (simp only: of_int_le_iff)
    then show ?thesis using B(1) by (simp add: p [symmetric])
  qed
  have b_hi: "rat_of_int b < 2 powi lb"
  proof -
    have "rat_of_int b < rat_of_int (2 ^ nat lb)"
      using B(3) by (simp only: of_int_less_iff)
    then show ?thesis using B(1) by (simp add: p [symmetric])
  qed
  have up: "x < 2 powi (k + 1)"
  proof -
    have "rat_of_int a / rat_of_int b < 2 powi la / 2 powi (lb - 1)"
      using a a_hi b_lo by (intro frac_less) simp_all
    also have "\<dots> = 2 powi (la - (lb - 1))"
      by (rule power_int_diff [symmetric]) simp
    also have "la - (lb - 1) = k + 1"
      by (simp add: k_def)
    finally show ?thesis by (simp add: x)
  qed
  have lo: "2 powi (k - 1) < x"
  proof -
    have "2 powi (la - 1) / 2 powi lb < rat_of_int a / rat_of_int b"
      using b a_lo b_hi by (intro frac_less2) simp_all
    moreover have "2 powi (la - 1) / 2 powi lb = (2::rat) powi (la - 1 - lb)"
      by (rule power_int_diff [symmetric]) simp
    moreover have "la - 1 - lb = k - 1"
      by (simp add: k_def)
    ultimately show ?thesis by (simp add: x)
  qed
  have e: "binary_exponent x = (if pow2 k \<le> x then k else k - 1)"
    by (simp add: binary_exponent_def q k_def la_def lb_def Let_def)
  show ?thesis
  proof (cases "pow2 k \<le> x")
    case True
    then show ?thesis using up e by (simp add: pow2_powi)
  next
    case False
    then show ?thesis using lo e by (simp add: pow2_powi)
  qed
qed

lemma round_half_even_near: "\<bar>of_int (round_half_even y) - y\<bar> \<le> 1 / 2"
proof -
  define r where "r = y - of_int \<lfloor>y\<rfloor>"
  have r: "0 \<le> r" "r < 1"
    unfolding r_def by linarith+
  have y: "y = of_int \<lfloor>y\<rfloor> + r"
    by (simp add: r_def)
  consider "r < 1 / 2" | "1 / 2 < r" | "r = 1 / 2"
    by linarith
  then show ?thesis
  proof cases
    case 1
    then have "round_half_even y = \<lfloor>y\<rfloor>"
      by (simp add: round_half_even_def r_def Let_def)
    then show ?thesis using 1 r y by simp
  next
    case 2
    then have "round_half_even y = \<lfloor>y\<rfloor> + 1"
      by (simp add: round_half_even_def r_def Let_def)
    then show ?thesis using 2 r y by simp
  next
    case 3
    then have "round_half_even y = \<lfloor>y\<rfloor> \<or> round_half_even y = \<lfloor>y\<rfloor> + 1"
      by (simp add: round_half_even_def r_def Let_def)
    then show ?thesis using 3 y by auto
  qed
qed

text \<open>\<open>round_float64 x\<close> is a multiple of the unit in the last place of \<open>x\<close>, with
  a significand of 53 bits, and at most half a unit away from \<open>x\<close>.\<close>

lemma round_float64_nearest:
  assumes "x \<noteq> 0"
  shows "\<exists>m. round_float64 x = sgn x * of_int m * pow2 (binary_exponent \<bar>x\<bar> - 52)
           \<and> 2 ^ 52 \<le> m \<and> m \<le> 2 ^ 53
           \<and> \<bar>round_float64 x - x\<bar> \<le> pow2 (binary_exponent \<bar>x\<bar> - 52) / 2"
proof -
  define u where "u = pow2 (binary_exponent \<bar>x\<bar> - 52)"
  define e where "e = binary_exponent \<bar>x\<bar>"
  define m where "m = round_half_even (\<bar>x\<bar> / u)"
  have u: "u = 2 powi (e - 52)" and upos: "0 < u"
    by (simp_all add: u_def e_def pow2_powi)
  have ax: "0 < \<bar>x\<bar>" using assms(1) by simp
  from binary_exponent_bounds [OF ax] have
    lo: "2 powi e \<le> \<bar>x\<bar>" and hi: "\<bar>x\<bar> < 2 powi (e + 1)"
    by (simp_all add: e_def pow2_powi)
  have "2 powi e / u = (2::rat) powi (e - (e - 52))" "2 powi (e + 1) / u = (2::rat) powi (e + 1 - (e - 52))"
    unfolding u by (rule power_int_diff [symmetric], simp)+
  then have s: "2 powi e / u = 2 ^ 52" "2 powi (e + 1) / u = 2 ^ 53"
    by (simp_all add: power_int_def)
  have qlo: "2 ^ 52 \<le> \<bar>x\<bar> / u"
    using lo upos s(1) by (metis divide_right_mono less_imp_le)
  have qhi: "\<bar>x\<bar> / u < 2 ^ 53"
    using hi upos s(2) by (metis divide_strict_right_mono)
  have near: "\<bar>rat_of_int m - \<bar>x\<bar> / u\<bar> \<le> 1 / 2"
    unfolding m_def by (rule round_half_even_near)
  have r: "round_float64 x = sgn x * of_int m * u"
    using assms(1) by (simp add: round_float64_def m_def u_def Let_def)
  define q where "q = \<bar>x\<bar> / u"
  have n: "rat_of_int m - q \<le> 1 / 2" "- (rat_of_int m - q) \<le> 1 / 2"
    using near unfolding abs_le_iff q_def by blast+
  have q: "4503599627370496 \<le> q" "q < 9007199254740992"
    using qlo qhi by (simp_all add: q_def)
  have "rat_of_int 4503599627370495 < rat_of_int m"
    using n(2) q(1) by simp
  then have "4503599627370495 < m"
    by (simp only: of_int_less_iff)
  then have m52: "2 ^ 52 \<le> m"
    by simp
  have "rat_of_int m < rat_of_int 9007199254740993"
    using n(1) q(2) by simp
  then have "m < 9007199254740993"
    by (simp only: of_int_less_iff)
  then have m53: "m \<le> 2 ^ 53"
    by simp
  have "round_float64 x - x = sgn x * (of_int m - \<bar>x\<bar> / u) * u"
    using upos by (simp add: r algebra_simps sgn_if abs_if)
  then have "\<bar>round_float64 x - x\<bar> = \<bar>of_int m - \<bar>x\<bar> / u\<bar> * u"
    using upos assms(1) by (simp add: abs_mult abs_sgn_eq)
  also have "\<dots> \<le> 1 / 2 * u"
    using near upos by (intro mult_right_mono) simp_all
  finally have "\<bar>round_float64 x - x\<bar> \<le> u / 2" by simp
  with r m52 m53 show ?thesis unfolding u_def by blast
qed

subsection \<open>Numeric codec\<close>

text \<open>Up to \<open>10^22\<close> the powers of ten are \<open>float64\<close> numbers, so the multiplier loop
  computes them exactly when there are at most 22 decimals.\<close>

lemma pow10_exact_upto: "list_all (\<lambda>k. fmul (10 ^ k) 10 = 10 ^ Suc k) [0..<22]"
  by code_simp

lemma pow10_exact: "k < 22 \<Longrightarrow> fmul (10 ^ k) 10 = 10 ^ Suc k"
  using pow10_exact_upto by (simp add: list_all_iff)

lemma multiplier_loop_power:
  "i \<le> decimals \<Longrightarrow> unat decimals \<le> 22 \<Longrightarrow> multiplier = 10 ^ unat i \<Longrightarrow>
     multiplier_loop i decimals multiplier = 10 ^ unat decimals"
proof (induction i decimals multiplier rule: multiplier_loop.induct)
  case (1 i decimals multiplier)
  show ?case
  proof (cases "i < decimals")
    case True
    then have lt: "unat i < unat decimals"
      by (simp add: word_less_nat_alt)
    have "unat decimals < 2 ^ 8"
      using unsigned_less [of decimals] by simp
    with lt have "unat i + unat (1 :: uint8) < 2 ^ LENGTH(8)"
      by simp
    then have suc: "unat (i + 1) = unat i + 1"
      by (simp add: unat_add_lem [THEN iffD1])
    then have le: "i + 1 \<le> decimals"
      using lt by (simp add: word_le_nat_alt)
    have "unat i < 22"
      using lt "1.prems"(2) by simp
    then have m: "fmul multiplier 10 = 10 ^ unat (i + 1)"
      using "1.prems"(3) suc by (simp add: pow10_exact)
    have "multiplier_loop i decimals multiplier =
        multiplier_loop (i + 1) decimals (fmul multiplier 10)"
      using True by (subst multiplier_loop.simps) simp
    also have "\<dots> = 10 ^ unat decimals"
      using "1.IH" [OF True le "1.prems"(2) m] .
    finally show ?thesis .
  next
    case False
    with "1.prems"(1) have "i = decimals" by simp
    then show ?thesis
      using "1.prems"(3) by (subst multiplier_loop.simps) simp
  qed
qed

lemma multiplier_loop_from_0:
  "unat decimals \<le> 22 \<Longrightarrow> multiplier_loop 0 decimals 1 = 10 ^ unat decimals"
  using multiplier_loop_power [of 0 decimals 1] by simp

text \<open>The conversions to integers truncate towards zero.\<close>

lemma trunc_float64_bounds:
  "\<bar>of_int (trunc_float64 x)\<bar> \<le> \<bar>x\<bar> \<and> \<bar>x\<bar> < \<bar>of_int (trunc_float64 x)\<bar> + 1
     \<and> 0 \<le> of_int (trunc_float64 x) * x"
proof (cases "x < 0")
  case True
  then have t: "trunc_float64 x = - \<lfloor>- x\<rfloor>" by (simp add: trunc_float64_def)
  have "0 \<le> \<lfloor>- x\<rfloor>" using True by simp
  moreover have "of_int \<lfloor>- x\<rfloor> \<le> - x" "- x < of_int \<lfloor>- x\<rfloor> + 1"
    by linarith+
  moreover have "rat_of_int \<lfloor>- x\<rfloor> * x \<le> 0"
    using True \<open>0 \<le> \<lfloor>- x\<rfloor>\<close> by (simp add: mult_nonneg_nonpos)
  ultimately show ?thesis using True t
    by simp
next
  case False
  then have t: "trunc_float64 x = \<lfloor>x\<rfloor>" by (simp add: trunc_float64_def)
  have "0 \<le> \<lfloor>x\<rfloor>" using False by simp
  moreover have "of_int \<lfloor>x\<rfloor> \<le> x" "x < of_int \<lfloor>x\<rfloor> + 1"
    by linarith+
  ultimately show ?thesis using False t by simp
qed

lemma trunc_float64_range:
  assumes "\<bar>x\<bar> < 2 ^ 63"
  shows "- (2 ^ 63) \<le> trunc_float64 x \<and> trunc_float64 x < 2 ^ 63"
proof -
  have "\<bar>rat_of_int (trunc_float64 x)\<bar> < 2 ^ 63"
    using trunc_float64_bounds [of x] assms by linarith
  then have "rat_of_int \<bar>trunc_float64 x\<bar> < rat_of_int (2 ^ 63)"
    by simp
  then have "\<bar>trunc_float64 x\<bar> < 2 ^ 63"
    by (simp only: of_int_less_iff)
  then show ?thesis by linarith
qed

lemma int64_of_float64_in_range:
  assumes "\<bar>x\<bar> < 2 ^ 63"
  shows "sint (int64_of_float64 x) = trunc_float64 x"
proof -
  have r: "- (2 ^ 63) \<le> trunc_float64 x \<and> trunc_float64 x < 2 ^ 63"
    using trunc_float64_range [OF assms] .
  then have "int64_of_float64 x = word_of_int (trunc_float64 x)"
    by (simp add: int64_of_float64_def)
  moreover have "sint (word_of_int (trunc_float64 x) :: int64) = trunc_float64 x"
    using r by (simp add: sint_sbintrunc' signed_take_bit_int_eq_self)
  ultimately show ?thesis by simp
qed

lemma uint32_of_float64_in_range:
  assumes "0 \<le> x" "x < 2 ^ 32"
  shows "uint (uint32_of_float64 x) = trunc_float64 x"
proof -
  have t: "trunc_float64 x = \<lfloor>x\<rfloor>" using assms by (simp add: trunc_float64_def)
  have lo: "0 \<le> \<lfloor>x\<rfloor>" using assms by simp
  have "x < rat_of_int (2 ^ 32)" using assms by simp
  then have hi: "\<lfloor>x\<rfloor> < 2 ^ 32" by (simp only: floor_less_iff)
  have "int64_of_float64 x = word_of_int \<lfloor>x\<rfloor>"
    using lo hi t by (simp add: int64_of_float64_def)
  then have "uint (uint32_of_float64 x) = take_bit 32 (uint (word_of_int \<lfloor>x\<rfloor> :: int64))"
    by (simp add: uint32_of_float64_def unsigned_ucast_eq)
  also have "uint (word_of_int \<lfloor>x\<rfloor> :: int64) = \<lfloor>x\<rfloor>"
    using lo hi by (simp add: uint_word_of_int_eq take_bit_int_eq_self)
  also have "take_bit 32 \<lfloor>x\<rfloor> = \<lfloor>x\<rfloor>"
    using lo hi by (simp add: take_bit_int_eq_self)
  finally show ?thesis using t by simp
qed


text \<open>
  C7. For a symbol whose coin is in the cache, \<open>convertToBaseAmount\<close> multiplies the
  quantity by the multiplier of the market's size decimals and converts the product to
  int64. The multiplier is \<open>10^d\<close> for \<open>d\<close> size decimals (exactly so up to 22 decimals,
  the largest power of ten that is a \<open>float64\<close>). The conversion truncates towards zero
  and does not round: for a product that fits an int64 the result is no larger in
  absolute value than the product, less than 1 away from it, and of the same sign.
  With four size decimals, 1.23456 becomes 12345.
\<close>

theorem convertToBaseAmount_truncates:
  assumes "cache (convertSymbolToLighterCoin S) = Some marketInfo"
    and "d = unat (ob_SupportedSizeDecimals marketInfo)"
    and "x = fmul q (multiplier_loop 0 (ob_SupportedSizeDecimals marketInfo) 1)"
  shows "convertToBaseAmount cache S q = int64_of_float64 x
     \<and> (d \<le> 22 \<longrightarrow> x = fmul q (10 ^ d))
     \<and> (\<bar>x\<bar> < 2 ^ 63 \<longrightarrow>
          sint (convertToBaseAmount cache S q) = trunc_float64 x
          \<and> \<bar>of_int (sint (convertToBaseAmount cache S q))\<bar> \<le> \<bar>x\<bar>
          \<and> \<bar>x\<bar> < \<bar>of_int (sint (convertToBaseAmount cache S q))\<bar> + 1
          \<and> 0 \<le> of_int (sint (convertToBaseAmount cache S q)) * x)
     \<and> (d = 4 \<and> q = round_float64 (123456 / 100000) \<longrightarrow>
          sint (convertToBaseAmount cache S q) = 12345)"
proof -
  have c: "convertToBaseAmount cache S q = int64_of_float64 x"
    using assms(1,3) by (simp add: convertToBaseAmount_def)
  have p: "d \<le> 22 \<longrightarrow> x = fmul q (10 ^ d)"
    using assms(2,3) by (simp add: multiplier_loop_from_0)
  have t: "\<bar>x\<bar> < 2 ^ 63 \<longrightarrow>
          sint (convertToBaseAmount cache S q) = trunc_float64 x
          \<and> \<bar>of_int (sint (convertToBaseAmount cache S q))\<bar> \<le> \<bar>x\<bar>
          \<and> \<bar>x\<bar> < \<bar>of_int (sint (convertToBaseAmount cache S q))\<bar> + 1
          \<and> 0 \<le> of_int (sint (convertToBaseAmount cache S q)) * x"
  proof
    assume r: "\<bar>x\<bar> < 2 ^ 63"
    have eq: "sint (convertToBaseAmount cache S q) = trunc_float64 x"
      unfolding c by (rule int64_of_float64_in_range [OF r])
    note b = trunc_float64_bounds [of x, folded eq]
    show "sint (convertToBaseAmount cache S q) = trunc_float64 x
          \<and> \<bar>of_int (sint (convertToBaseAmount cache S q))\<bar> \<le> \<bar>x\<bar>
          \<and> \<bar>x\<bar> < \<bar>of_int (sint (convertToBaseAmount cache S q))\<bar> + 1
          \<and> 0 \<le> of_int (sint (convertToBaseAmount cache S q)) * x"
      by (intro conjI) (rule eq b [THEN conjunct1] b [THEN conjunct2, THEN conjunct1]
          b [THEN conjunct2, THEN conjunct2])+
  qed
  have ex: "d = 4 \<and> q = round_float64 (123456 / 100000) \<longrightarrow>
          sint (convertToBaseAmount cache S q) = 12345"
  proof (intro impI, elim conjE)
    assume dq: "d = 4" "q = round_float64 (123456 / 100000)"
    have "sint (int64_of_float64 (fmul (round_float64 (123456 / 100000)) (10 ^ 4))) = 12345"
      by code_simp
    moreover have "x = fmul (round_float64 (123456 / 100000)) (10 ^ 4)"
      using p dq by simp
    ultimately show "sint (convertToBaseAmount cache S q) = 12345"
      by (simp only: c)
  qed
  show ?thesis
    using c p t ex by (intro conjI)
qed

text \<open>On ETH, with four size decimals: 1.23456 and -1.23456 lose their last digit, and
  0.7, which as a \<open>float64\<close> is a little less than 0.7, becomes 7000 because the product
  is rounded to 7000 before the conversion.\<close>

theorem convertToBaseAmount_truncates_witness:
  "example_cache (convertSymbolToLighterCoin ''ETHUSDT'') = Some eth_market
   \<and> unat (ob_SupportedSizeDecimals eth_market) = 4
   \<and> sint (convertToBaseAmount example_cache ''ETHUSDT'' (round_float64 (123456 / 100000))) = 12345
   \<and> sint (convertToBaseAmount example_cache ''ETHUSDT'' (- round_float64 (123456 / 100000))) = - 12345
   \<and> sint (convertToBaseAmount example_cache ''ETHUSDT'' (round_float64 (7 / 10))) = 7000"
proof -
  have c: "example_cache (convertSymbolToLighterCoin ''ETHUSDT'') = Some eth_market"
    by (simp add: example_cache_def convertSymbolToLighterCoin_def)
  have d: "4 = unat (ob_SupportedSizeDecimals eth_market)"
    by (simp add: eth_market_def)
  note w = convertToBaseAmount_truncates
      [where cache = example_cache and S = "''ETHUSDT''", OF c d refl]
  have w1: "sint (convertToBaseAmount example_cache ''ETHUSDT'' (round_float64 (123456 / 100000)))
      = 12345"
    by (rule w [THEN conjunct2, THEN conjunct2, THEN conjunct2, THEN mp, OF conjI, OF refl refl])
  have r2: "\<bar>fmul (- round_float64 (123456 / 100000))
        (multiplier_loop 0 (ob_SupportedSizeDecimals eth_market) 1)\<bar> < 2 ^ 63"
    by code_simp
  have t2: "trunc_float64 (fmul (- round_float64 (123456 / 100000))
        (multiplier_loop 0 (ob_SupportedSizeDecimals eth_market) 1)) = - 12345"
    by code_simp
  have "sint (convertToBaseAmount example_cache ''ETHUSDT'' (- round_float64 (123456 / 100000)))
      = trunc_float64 (fmul (- round_float64 (123456 / 100000))
          (multiplier_loop 0 (ob_SupportedSizeDecimals eth_market) 1))"
    by (rule w [THEN conjunct2, THEN conjunct2, THEN conjunct1, THEN mp, OF r2, THEN conjunct1])
  then have w2: "sint (convertToBaseAmount example_cache ''ETHUSDT''
      (- round_float64 (123456 / 100000))) = - 12345"
    by (simp only: t2)
  have r3: "\<bar>fmul (round_float64 (7 / 10))
        (multiplier_loop 0 (ob_SupportedSizeDecimals eth_market) 1)\<bar> < 2 ^ 63"
    by code_simp
  have t3: "trunc_float64 (fmul (round_float64 (7 / 10))
        (multiplier_loop 0 (ob_SupportedSizeDecimals eth_market) 1)) = 7000"
    by code_simp
  have "sint (convertToBaseAmount example_cache ''ETHUSDT'' (round_float64 (7 / 10)))
      = trunc_float64 (fmul (round_float64 (7 / 10))
          (multiplier_loop 0 (ob_SupportedSizeDecimals eth_market) 1))"
    by (rule w [THEN conjunct2, THEN conjunct2, THEN conjunct1, THEN mp, OF r3, THEN conjunct1])
  then have w3: "sint (convertToBaseAmount example_cache ''ETHUSDT'' (round_float64 (7 / 10))) = 7000"
    by (simp only: t3)
  show ?thesis
    by (intro conjI) (rule c d [symmetric] w1 w2 w3)+
qed

text \<open>
  C6. For a symbol whose coin is not in the cache, \<open>convertToBaseAmount\<close> and
  \<open>convertToLighterPrice\<close> multiply by 10000 = 10^4 and convert; they return a number
  in every case (their result type has no error), and for a product in range that number
  is the truncated product.
\<close>

theorem codec_fallback_precision:
  assumes "cache (convertSymbolToLighterCoin S) = None"
  shows "convertToBaseAmount cache S q = int64_of_float64 (fmul q (10 ^ 4))
     \<and> convertToLighterPrice cache S p = uint32_of_float64 (fmul p (10 ^ 4))
     \<and> (\<bar>fmul q (10 ^ 4)\<bar> < 2 ^ 63 \<longrightarrow>
          sint (convertToBaseAmount cache S q) = trunc_float64 (fmul q (10 ^ 4)))
     \<and> (0 \<le> fmul p (10 ^ 4) \<and> fmul p (10 ^ 4) < 2 ^ 32 \<longrightarrow>
          uint (convertToLighterPrice cache S p) = trunc_float64 (fmul p (10 ^ 4)))"
proof -
  have a: "convertToBaseAmount cache S q = int64_of_float64 (fmul q (10 ^ 4))"
    using assms by (simp add: convertToBaseAmount_def)
  have b: "convertToLighterPrice cache S p = uint32_of_float64 (fmul p (10 ^ 4))"
    using assms by (simp add: convertToLighterPrice_def)
  have c: "\<bar>fmul q (10 ^ 4)\<bar> < 2 ^ 63 \<longrightarrow>
          sint (convertToBaseAmount cache S q) = trunc_float64 (fmul q (10 ^ 4))"
    unfolding a using int64_of_float64_in_range [of "fmul q (10 ^ 4)"] by (intro impI)
  have d: "0 \<le> fmul p (10 ^ 4) \<and> fmul p (10 ^ 4) < 2 ^ 32 \<longrightarrow>
          uint (convertToLighterPrice cache S p) = trunc_float64 (fmul p (10 ^ 4))"
    unfolding b using uint32_of_float64_in_range [of "fmul p (10 ^ 4)"] by (intro impI) simp
  show ?thesis
    using a b c d by (intro conjI)
qed

theorem codec_fallback_precision_witness:
  "example_cache (convertSymbolToLighterCoin ''XYZUSDT'') = None
   \<and> convertToBaseAmount example_cache ''XYZUSDT'' (3 / 2) = 15000
   \<and> convertToLighterPrice example_cache ''XYZUSDT'' (5 / 2) = 25000
   \<and> sint (convertToBaseAmount example_cache ''XYZUSDT'' (round_float64 (123456 / 100000))) = 12345
   \<and> uint (convertToLighterPrice example_cache ''XYZUSDT'' (round_float64 (123456 / 100000))) = 12345"
proof -
  have c: "example_cache (convertSymbolToLighterCoin ''XYZUSDT'') = None"
    by (simp add: example_cache_def convertSymbolToLighterCoin_def)
  have e1: "int64_of_float64 (fmul (3 / 2) (10 ^ 4)) = 15000"
    by code_simp
  have e2: "uint32_of_float64 (fmul (5 / 2) (10 ^ 4)) = 25000"
    by code_simp
  have e3: "trunc_float64 (fmul (round_float64 (123456 / 100000)) (10 ^ 4)) = 12345"
    by code_simp
  have r1: "\<bar>fmul (round_float64 (123456 / 100000)) (10 ^ 4)\<bar> < 2 ^ 63"
    by code_simp
  have r2: "0 \<le> fmul (round_float64 (123456 / 100000)) (10 ^ 4)
      \<and> fmul (round_float64 (123456 / 100000)) (10 ^ 4) < 2 ^ 32"
    by code_simp
  note a = codec_fallback_precision
      [where cache = example_cache and S = "''XYZUSDT''" and q = "3 / 2" and p = "5 / 2", OF c]
  note b = codec_fallback_precision
      [where cache = example_cache and S = "''XYZUSDT''"
         and q = "round_float64 (123456 / 100000)"
         and p = "round_float64 (123456 / 100000)", OF c]
  have "convertToBaseAmount example_cache ''XYZUSDT'' (3 / 2)
      = int64_of_float64 (fmul (3 / 2) (10 ^ 4))"
    by (rule a [THEN conjunct1])
  then have w1: "convertToBaseAmount example_cache ''XYZUSDT'' (3 / 2) = 15000"
    by (simp only: e1)
  have "convertToLighterPrice example_cache ''XYZUSDT'' (5 / 2)
      = uint32_of_float64 (fmul (5 / 2) (10 ^ 4))"
    by (rule a [THEN conjunct2, THEN conjunct1])
  then have w2: "convertToLighterPrice example_cache ''XYZUSDT'' (5 / 2) = 25000"
    by (simp only: e2)
  have "sint (convertToBaseAmount example_cache ''XYZUSDT'' (round_float64 (123456 / 100000)))
      = trunc_float64 (fmul (round_float64 (123456 / 100000)) (10 ^ 4))"
    by (rule b [THEN conjunct2, THEN conjunct2, THEN conjunct1, THEN mp, OF r1])
  then have w3: "sint (convertToBaseAmount example_cache ''XYZUSDT''
      (round_float64 (123456 / 100000))) = 12345"
    by (simp only: e3)
  have "uint (convertToLighterPrice example_cache ''XYZUSDT'' (round_float64 (123456 / 100000)))
      = trunc_float64 (fmul (round_float64 (123456 / 100000)) (10 ^ 4))"
    by (rule b [THEN conjunct2, THEN conjunct2, THEN conjunct2, THEN mp, OF r2])
  then have w4: "uint (convertToLighterPrice example_cache ''XYZUSDT''
      (round_float64 (123456 / 100000))) = 12345"
    by (simp only: e3)
  show ?thesis
    by (intro conjI) (rule c w1 w2 w3 w4)+
qed

subsection \<open>Symbols\<close>

lemma USDT_suffix_split:
  "length symbol > 4 \<and> drop (length symbol - 4) symbol = ''USDT''
     \<longleftrightarrow> (\<exists>coin. coin \<noteq> [] \<and> symbol = coin @ ''USDT'')"
proof
  assume a: "length symbol > 4 \<and> drop (length symbol - 4) symbol = ''USDT''"
  have "symbol = take (length symbol - 4) symbol @ drop (length symbol - 4) symbol"
    by simp
  with a have "symbol = take (length symbol - 4) symbol @ ''USDT''" by simp
  moreover have "take (length symbol - 4) symbol \<noteq> []" using a by auto
  ultimately show "\<exists>coin. coin \<noteq> [] \<and> symbol = coin @ ''USDT''" by blast
next
  assume "\<exists>coin. coin \<noteq> [] \<and> symbol = coin @ ''USDT''"
  then obtain coin where "coin \<noteq> []" "symbol = coin @ ''USDT''" by blast
  then show "length symbol > 4 \<and> drop (length symbol - 4) symbol = ''USDT''"
    by (cases coin) simp_all
qed

text \<open>
  C10. The coin key of a symbol: a symbol that is a non-empty coin name followed by
  \<open>USDT\<close> (that is, one longer than 4 characters that ends in \<open>USDT\<close>) yields the
  coin name; every other symbol is its own key, among them \<open>USDT\<close> itself and \<open>ETH\<close>.
\<close>

theorem convertSymbolToLighterCoin_key:
  "(coin \<noteq> [] \<longrightarrow> convertSymbolToLighterCoin (coin @ ''USDT'') = coin)
   \<and> ((\<nexists>c. c \<noteq> [] \<and> symbol = c @ ''USDT'') \<longrightarrow> convertSymbolToLighterCoin symbol = symbol)
   \<and> convertSymbolToLighterCoin ''USDT'' = ''USDT''
   \<and> convertSymbolToLighterCoin ''ETH'' = ''ETH''"
proof -
  have "coin \<noteq> [] \<longrightarrow> convertSymbolToLighterCoin (coin @ ''USDT'') = coin"
    by (cases coin) (simp_all add: convertSymbolToLighterCoin_def)
  moreover have "(\<nexists>c. c \<noteq> [] \<and> symbol = c @ ''USDT'') \<longrightarrow> convertSymbolToLighterCoin symbol = symbol"
  proof
    assume "\<nexists>c. c \<noteq> [] \<and> symbol = c @ ''USDT''"
    then have "\<not> (length symbol > 4 \<and> drop (length symbol - 4) symbol = ''USDT'')"
      using USDT_suffix_split [of symbol] by blast
    then show "convertSymbolToLighterCoin symbol = symbol"
      by (simp only: convertSymbolToLighterCoin_def if_False)
  qed
  moreover have "convertSymbolToLighterCoin ''USDT'' = ''USDT''"
      "convertSymbolToLighterCoin ''ETH'' = ''ETH''"
    by (simp_all add: convertSymbolToLighterCoin_def)
  ultimately show ?thesis by blast
qed

theorem convertSymbolToLighterCoin_key_witness:
  "convertSymbolToLighterCoin ''ETHUSDT'' = ''ETH''
   \<and> convertSymbolToLighterCoin ''BTC-USD'' = ''BTC-USD''
   \<and> convertSymbolToLighterCoin ''usdt'' = ''usdt''"
proof -
  have n1: "\<nexists>c. c \<noteq> [] \<and> ''BTC-USD'' = c @ ''USDT''"
    using USDT_suffix_split [of "''BTC-USD''"] by simp
  have n2: "\<nexists>c. c \<noteq> [] \<and> ''usdt'' = c @ ''USDT''"
    using USDT_suffix_split [of "''usdt''"] by simp
  show ?thesis
    using convertSymbolToLighterCoin_key [of "''ETH''" "''BTC-USD''"]
      convertSymbolToLighterCoin_key [of "''ETH''" "''usdt''"] n1 n2
    by simp
qed


subsection \<open>Market metadata cache\<close>

lemma store_markets_dom:
  "dom (store_markets ms cache) = dom cache \<union> ob_Symbol ` set ms"
  by (induction ms arbitrary: cache) auto

lemma store_markets_other:
  "coin \<notin> ob_Symbol ` set ms \<Longrightarrow> store_markets ms cache coin = cache coin"
  by (induction ms arbitrary: cache) auto

lemma store_markets_fetched:
  "coin \<in> ob_Symbol ` set ms \<Longrightarrow>
     \<exists>m \<in> set ms. store_markets ms cache coin = Some m \<and> ob_Symbol m = coin"
proof (induction ms arbitrary: cache)
  case Nil
  then show ?case by simp
next
  case (Cons a ms)
  show ?case
  proof (cases "coin \<in> ob_Symbol ` set ms")
    case True
    from Cons.IH [OF True, of "cache(ob_Symbol a \<mapsto> a)"] obtain m where
      "m \<in> set ms" "store_markets ms (cache(ob_Symbol a \<mapsto> a)) coin = Some m" "ob_Symbol m = coin"
      by blast
    then show ?thesis
      by (intro bexI [of _ m]) simp_all
  next
    case False
    with Cons.prems have "coin = ob_Symbol a" by simp
    then show ?thesis
      using store_markets_other [OF False, of "cache(ob_Symbol a \<mapsto> a)"] by simp
  qed
qed

lemma loadMarketInfo_success:
  assumes "loadMarketInfo e t = (Inr u, t')"
  shows "\<exists>status body resp.
           httpGetOrderBooks e (length (calls t)) = Response status body (Inr resp)
         \<and> t' = t\<lparr>calls := calls t @ [CallGetOrderBooks],
                   marketInfoCache := store_markets (obr_OrderBooks resp) (marketInfoCache t)\<rparr>"
  using assms
  by (auto simp: loadMarketInfo_def Let_def split: http_result.splits if_splits sum.splits)

lemma loadMarketInfo_failure:
  assumes "loadMarketInfo e t = (Inl err, t')"
  shows "t' = t\<lparr>calls := calls t @ [CallGetOrderBooks]\<rparr>"
  using assms
  by (auto simp: loadMarketInfo_def Let_def split: http_result.splits if_splits sum.splits)

lemma stale_reload:
  "loadMarketInfo example_env stale_trader =
     (Inr (), stale_trader\<lparr>calls := [CallGetOrderBooks],
        marketInfoCache := [''DOGE'' \<mapsto> doge_market, ''ETH'' \<mapsto> eth_market]\<rparr>)"
  by (simp add: loadMarketInfo_def example_env_def stale_trader_def eth_market_def)

text \<open>
  C1 (as the code has it). A successful \<open>loadMarketInfo\<close> fetches the market list and
  stores every fetched market under its symbol in the cache it already has: afterwards a
  coin key is present if and only if it was present before or is the symbol of a fetched
  market; a key that is not a fetched symbol keeps its entry, so a market that has been
  delisted stays in the cache; a fetched symbol maps to a fetched market of that symbol.
\<close>

theorem loadMarketInfo_merges:
  assumes "loadMarketInfo e t = (Inr u, t')"
  shows "\<exists>status body resp.
           httpGetOrderBooks e (length (calls t)) = Response status body (Inr resp)
         \<and> (\<forall>coin. coin \<in> dom (marketInfoCache t') \<longleftrightarrow>
               coin \<in> dom (marketInfoCache t) \<or> coin \<in> ob_Symbol ` set (obr_OrderBooks resp))
         \<and> (\<forall>coin. coin \<notin> ob_Symbol ` set (obr_OrderBooks resp) \<longrightarrow>
               marketInfoCache t' coin = marketInfoCache t coin)
         \<and> (\<forall>coin \<in> ob_Symbol ` set (obr_OrderBooks resp).
               \<exists>m \<in> set (obr_OrderBooks resp). marketInfoCache t' coin = Some m \<and> ob_Symbol m = coin)"
proof -
  from loadMarketInfo_success [OF assms] obtain status body resp where
    r: "httpGetOrderBooks e (length (calls t)) = Response status body (Inr resp)" and
    t': "t' = t\<lparr>calls := calls t @ [CallGetOrderBooks],
                 marketInfoCache := store_markets (obr_OrderBooks resp) (marketInfoCache t)\<rparr>"
    by blast
  have c: "marketInfoCache t' = store_markets (obr_OrderBooks resp) (marketInfoCache t)"
    by (simp add: t')
  have "\<forall>coin. coin \<in> dom (marketInfoCache t') \<longleftrightarrow>
      coin \<in> dom (marketInfoCache t) \<or> coin \<in> ob_Symbol ` set (obr_OrderBooks resp)"
    unfolding c store_markets_dom by blast
  moreover have "\<forall>coin. coin \<notin> ob_Symbol ` set (obr_OrderBooks resp) \<longrightarrow>
      marketInfoCache t' coin = marketInfoCache t coin"
    unfolding c using store_markets_other by blast
  moreover have "\<forall>coin \<in> ob_Symbol ` set (obr_OrderBooks resp).
      \<exists>m \<in> set (obr_OrderBooks resp). marketInfoCache t' coin = Some m \<and> ob_Symbol m = coin"
    unfolding c using store_markets_fetched by blast
  ultimately show ?thesis using r by blast
qed

theorem loadMarketInfo_merges_witness:
  "fst (loadMarketInfo example_env stale_trader) = Inr ()
   \<and> ''DOGE'' \<in> dom (marketInfoCache (snd (loadMarketInfo example_env stale_trader)))
   \<and> ''ETH'' \<in> dom (marketInfoCache (snd (loadMarketInfo example_env stale_trader)))
   \<and> ''BTC'' \<notin> dom (marketInfoCache (snd (loadMarketInfo example_env stale_trader)))"
proof -
  define t' where "t' = snd (loadMarketInfo example_env stale_trader)"
  have s: "loadMarketInfo example_env stale_trader = (Inr (), t')"
    unfolding t'_def by (simp add: stale_reload)
  have "\<exists>status body resp.
      httpGetOrderBooks example_env (length (calls stale_trader)) = Response status body (Inr resp)
    \<and> (\<forall>coin. coin \<in> dom (marketInfoCache t') \<longleftrightarrow>
          coin \<in> dom (marketInfoCache stale_trader) \<or> coin \<in> ob_Symbol ` set (obr_OrderBooks resp))
    \<and> (\<forall>coin. coin \<notin> ob_Symbol ` set (obr_OrderBooks resp) \<longrightarrow>
          marketInfoCache t' coin = marketInfoCache stale_trader coin)
    \<and> (\<forall>coin \<in> ob_Symbol ` set (obr_OrderBooks resp).
          \<exists>m \<in> set (obr_OrderBooks resp). marketInfoCache t' coin = Some m \<and> ob_Symbol m = coin)"
    by (rule loadMarketInfo_merges [OF s])
  then obtain status body resp where
    r: "httpGetOrderBooks example_env (length (calls stale_trader)) = Response status body (Inr resp)" and
    d: "\<forall>coin. coin \<in> dom (marketInfoCache t') \<longleftrightarrow>
          coin \<in> dom (marketInfoCache stale_trader) \<or> coin \<in> ob_Symbol ` set (obr_OrderBooks resp)"
    by (elim exE conjE)
  have "obr_OrderBooks resp = [eth_market]"
    using r by (auto simp: example_env_def)
  then have sym: "ob_Symbol ` set (obr_OrderBooks resp) = {''ETH''}"
    by (simp add: eth_market_def)
  have old: "dom (marketInfoCache stale_trader) = {''DOGE''}"
    by (simp add: stale_trader_def)
  have D: "''DOGE'' \<in> dom (marketInfoCache stale_trader)"
    by (simp add: old)
  have E: "''ETH'' \<in> ob_Symbol ` set (obr_OrderBooks resp)"
    by (simp add: sym)
  have w1: "''DOGE'' \<in> dom (marketInfoCache t')"
    by (rule d [THEN spec, THEN iffD2, OF disjI1, OF D])
  have w2: "''ETH'' \<in> dom (marketInfoCache t')"
    by (rule d [THEN spec, THEN iffD2, OF disjI2, OF E])
  have w3: "''BTC'' \<notin> dom (marketInfoCache t')"
    using d [THEN spec, of "''BTC''"] by (simp add: old sym)
  have w0: "fst (loadMarketInfo example_env stale_trader) = Inr ()"
    by (simp add: s)
  show ?thesis
    using w0 w1 w2 w3 unfolding t'_def by (intro conjI)
qed

text \<open>The cache is not replaced: the exchange lists ETH only, the reload succeeds, and
  the DOGE entry is still there.\<close>

theorem loadMarketInfo_keeps_delisted:
  "httpGetOrderBooks example_env (length (calls stale_trader)) =
     Response 200 [] (Inr \<lparr>obr_Code = 200, obr_Message = [], obr_OrderBooks = [eth_market]\<rparr>)
   \<and> ob_Symbol eth_market = ''ETH''
   \<and> fst (loadMarketInfo example_env stale_trader) = Inr ()
   \<and> marketInfoCache (snd (loadMarketInfo example_env stale_trader)) ''DOGE'' = Some doge_market"
  by (simp add: stale_reload) (simp add: example_env_def eth_market_def)

subsection \<open>Cancelling orders\<close>

text \<open>
  C5. \<open>CancelAllOrders\<close> does not depend on its symbol: the request holds the
  time-in-force and the time and nothing that identifies a market, so the call for one
  symbol is the call for any other.
\<close>

theorem CancelAllOrders_not_scoped:
  "CancelAllOrders e t symbol = CancelAllOrders e t symbol'
   \<and> new_calls t (snd (CancelAllOrders e t symbol)) =
       [CallCancelAllOrders \<lparr>ca_TimeInForce = ImmediateCancelAll,
                             ca_Time = UnixMilli (Now e (length (calls t)))\<rparr>]
   \<and> CancelAllOrders e t ''ETHUSDT'' = CancelAllOrders e t ''BTCUSDT''"
  by (simp add: CancelAllOrders_def new_calls_def Let_def split: sum.splits)


subsection \<open>Account snapshot reader\<close>

lemma positions_loop_map_filter:
  "positions_loop pf ps =
     map (\<lambda>pos. make_posMap pf pos (fst (pf (ap_Position pos))))
       (filter (\<lambda>pos. fst (pf (ap_Position pos)) \<noteq> 0) ps)"
  by (induction ps) (simp_all add: Let_def)

lemma GetPositions_success:
  assumes "GetPositions e t = (Inr result, t')"
  shows "\<exists>status body resp.
           httpGetAccount e (length (calls t)) (accountIndex t) = Response status body (Inr resp)
         \<and> result = positions_loop (ParseFloat e)
               (case ar_Accounts resp of [] \<Rightarrow> [] | account # _ \<Rightarrow> ac_Positions account)"
  using assms
  by (auto simp: GetPositions_def Let_def
      split: http_result.splits if_splits sum.splits list.splits)

lemma GetPositions_calls:
  "snd (GetPositions e t) = t\<lparr>calls := calls t @ [CallGetAccount (accountIndex t)]\<rparr>"
  by (simp add: GetPositions_def Let_def
      split: http_result.splits sum.splits list.splits)

lemma example_positions:
  "GetPositions example_env example_trader =
     (Inr [\<lparr>pm_symbol = ''ETHUSDT'', pm_side = ''short'', pm_positionAmt = 5 / 2,
            pm_entryPrice = 3000, pm_markPrice = 3000, pm_unRealizedProfit = 0,
            pm_leverage = 20, pm_liquidationPrice = 0\<rparr>],
      example_trader\<lparr>calls := [CallGetAccount 7]\<rparr>)"
proof -
  have f: "fdiv 7500 (5 / 2) = 3000" "fdiv 100 5 = 20"
    by code_simp+
  show ?thesis
    by (simp add: GetPositions_def example_env_def example_trader_def example_account_def
        short_eth_def example_ParseFloat_def make_posMap_def absFloat64_def Let_def f)
qed

text \<open>
  C4 (as the code has it). \<open>GetPositions\<close> returns, in order, one entry for every
  position of the first account whose parsed quantity is not 0, and none for a position
  whose quantity is 0. The side comes from the position's \<open>Sign\<close> field, not from the
  sign of the quantity: a positive \<open>Sign\<close> gives side long with the quantity as
  amount, any other \<open>Sign\<close> gives side short with the absolute value of the quantity
  as amount.
\<close>

theorem GetPositions_side_from_Sign:
  assumes "GetPositions e t = (Inr result, t')"
  shows "\<exists>status body resp.
      httpGetAccount e (length (calls t)) (accountIndex t) = Response status body (Inr resp)
    \<and> map (\<lambda>out. (pm_symbol out, pm_side out, pm_positionAmt out)) result =
        map (\<lambda>pos. (ap_Symbol pos @ ''USDT'',
                    if 0 < sint (ap_Sign pos)
                    then (''long'', fst (ParseFloat e (ap_Position pos)))
                    else (''short'', \<bar>fst (ParseFloat e (ap_Position pos))\<bar>)))
          (filter (\<lambda>pos. fst (ParseFloat e (ap_Position pos)) \<noteq> 0)
             (case ar_Accounts resp of [] \<Rightarrow> [] | account # _ \<Rightarrow> ac_Positions account))"
proof -
  from GetPositions_success [OF assms] obtain status body resp where
    r: "httpGetAccount e (length (calls t)) (accountIndex t) = Response status body (Inr resp)" and
    res: "result = positions_loop (ParseFloat e)
               (case ar_Accounts resp of [] \<Rightarrow> [] | account # _ \<Rightarrow> ac_Positions account)"
    by (elim exE conjE)
  have abs: "absFloat64 x = \<bar>x\<bar>" for x
    by (simp add: absFloat64_def abs_if)
  have "map (\<lambda>out. (pm_symbol out, pm_side out, pm_positionAmt out)) (positions_loop (ParseFloat e) ps) =
        map (\<lambda>pos. (ap_Symbol pos @ ''USDT'',
                    if 0 < sint (ap_Sign pos)
                    then (''long'', fst (ParseFloat e (ap_Position pos)))
                    else (''short'', \<bar>fst (ParseFloat e (ap_Position pos))\<bar>)))
          (filter (\<lambda>pos. fst (ParseFloat e (ap_Position pos)) \<noteq> 0) ps)" for ps
    by (simp add: positions_loop_map_filter make_posMap_def Let_def abs)
  then show ?thesis
    using r res by blast
qed

theorem GetPositions_side_from_Sign_witness:
  "map (\<lambda>out. (pm_symbol out, pm_side out, pm_positionAmt out))
      [\<lparr>pm_symbol = ''ETHUSDT'', pm_side = ''short'', pm_positionAmt = 5 / 2,
            pm_entryPrice = 3000, pm_markPrice = 3000, pm_unRealizedProfit = 0,
            pm_leverage = 20, pm_liquidationPrice = 0\<rparr>]
    = map (\<lambda>pos. (ap_Symbol pos @ ''USDT'',
                  if 0 < sint (ap_Sign pos)
                  then (''long'', fst (ParseFloat example_env (ap_Position pos)))
                  else (''short'', \<bar>fst (ParseFloat example_env (ap_Position pos))\<bar>)))
        (filter (\<lambda>pos. fst (ParseFloat example_env (ap_Position pos)) \<noteq> 0) [short_eth])"
proof -
  from GetPositions_side_from_Sign [OF example_positions] obtain status body resp where
    r: "httpGetAccount example_env (length (calls example_trader)) (accountIndex example_trader)
          = Response status body (Inr resp)" and
    m: "map (\<lambda>out. (pm_symbol out, pm_side out, pm_positionAmt out))
      [\<lparr>pm_symbol = ''ETHUSDT'', pm_side = ''short'', pm_positionAmt = 5 / 2,
            pm_entryPrice = 3000, pm_markPrice = 3000, pm_unRealizedProfit = 0,
            pm_leverage = 20, pm_liquidationPrice = 0\<rparr>]
    = map (\<lambda>pos. (ap_Symbol pos @ ''USDT'',
                  if 0 < sint (ap_Sign pos)
                  then (''long'', fst (ParseFloat example_env (ap_Position pos)))
                  else (''short'', \<bar>fst (ParseFloat example_env (ap_Position pos))\<bar>)))
        (filter (\<lambda>pos. fst (ParseFloat example_env (ap_Position pos)) \<noteq> 0)
           (case ar_Accounts resp of [] \<Rightarrow> [] | account # _ \<Rightarrow> ac_Positions account))"
    by (elim exE conjE)
  have "ar_Accounts resp = [example_account]"
    using r by (auto simp: example_env_def)
  then have "(case ar_Accounts resp of [] \<Rightarrow> [] | account # _ \<Rightarrow> ac_Positions account) = [short_eth]"
    by (simp add: example_account_def)
  with m show ?thesis by (simp only:)
qed

text \<open>A position with the positive quantity 2.5 and \<open>Sign\<close> -1 comes out as a short
  position of 2.5, not as a long one.\<close>

theorem GetPositions_positive_quantity_short:
  "httpGetAccount example_env (length (calls example_trader)) (accountIndex example_trader) =
     Response 200 [] (Inr \<lparr>ar_Code = 200, ar_Message = [], ar_Total = 1,
                          ar_Accounts = [example_account]\<rparr>)
   \<and> ac_Positions example_account = [short_eth]
   \<and> fst (ParseFloat example_env (ap_Position short_eth)) = 5 / 2
   \<and> sint (ap_Sign short_eth) = - 1
   \<and> fst (GetPositions example_env example_trader) =
       Inr [\<lparr>pm_symbol = ''ETHUSDT'', pm_side = ''short'', pm_positionAmt = 5 / 2,
             pm_entryPrice = 3000, pm_markPrice = 3000, pm_unRealizedProfit = 0,
             pm_leverage = 20, pm_liquidationPrice = 0\<rparr>]"
  by (simp add: example_positions)
    (simp add: example_env_def example_trader_def example_account_def short_eth_def
      example_ParseFloat_def)

subsection \<open>Closing without a position\<close>

lemma find_positionAmt_none:
  "\<forall>pos \<in> set ps. \<not> (pm_symbol pos = symbol \<and> pm_side pos = side) \<Longrightarrow>
     find_positionAmt symbol side ps q = q"
  by (induction ps) auto

text \<open>
  C8. \<open>CloseLong\<close> with quantity 0, when the positions read from the exchange hold no
  long position on the symbol, returns the error that no long position was found; the
  only external call it has made is the account query, so no order was created.
\<close>

theorem CloseLong_no_position:
  assumes "GetPositions e t = (Inr positions, t1)"
    and "\<forall>pos \<in> set positions. \<not> (pm_symbol pos = symbol \<and> pm_side pos = ''long'')"
  shows "CloseLong e t symbol 0 = (Inl (ErrNoLongPosition symbol), t1)
     \<and> new_calls t (snd (CloseLong e t symbol 0)) = [CallGetAccount (accountIndex t)]
     \<and> (\<forall>req. CallCreateOrder req \<notin> set (new_calls t (snd (CloseLong e t symbol 0))))"
proof -
  have q: "find_positionAmt symbol ''long'' positions 0 = 0"
    using find_positionAmt_none [OF assms(2)] .
  have c: "CloseLong e t symbol 0 = (Inl (ErrNoLongPosition symbol), t1)"
    by (simp add: CloseLong_def assms(1) q)
  have "t1 = t\<lparr>calls := calls t @ [CallGetAccount (accountIndex t)]\<rparr>"
    using GetPositions_calls [of e t] assms(1) by simp
  then have n: "new_calls t t1 = [CallGetAccount (accountIndex t)]"
    by (simp add: new_calls_def)
  show ?thesis
    by (simp add: c n)
qed

theorem CloseLong_no_position_witness:
  "CloseLong example_env example_trader ''ETHUSDT'' 0 =
     (Inl (ErrNoLongPosition ''ETHUSDT''), example_trader\<lparr>calls := [CallGetAccount 7]\<rparr>)
   \<and> new_calls example_trader (snd (CloseLong example_env example_trader ''ETHUSDT'' 0)) =
       [CallGetAccount 7]"
proof -
  have n: "\<forall>pos \<in> set [\<lparr>pm_symbol = ''ETHUSDT'', pm_side = ''short'', pm_positionAmt = 5 / 2,
            pm_entryPrice = 3000, pm_markPrice = 3000, pm_unRealizedProfit = 0,
            pm_leverage = 20, pm_liquidationPrice = 0\<rparr>].
        \<not> (pm_symbol pos = ''ETHUSDT'' \<and> pm_side pos = ''long'')"
    by simp
  have a: "accountIndex example_trader = 7"
    by (simp add: example_trader_def)
  note w = CloseLong_no_position [OF example_positions n]
  show ?thesis
    using w [THEN conjunct1] w [THEN conjunct2, THEN conjunct1] unfolding a
    by (intro conjI)
qed

subsection \<open>Leverage\<close>

lemma go_quot_nonneg: "0 \<le> a \<Longrightarrow> 0 < b \<Longrightarrow> go_quot a b = a div b"
  by (simp add: go_quot_def sgn_if)

lemma CancelAllOrders_state:
  "snd (CancelAllOrders e t symbol) =
     t\<lparr>calls := calls t @
        [CallCancelAllOrders \<lparr>ca_TimeInForce = ImmediateCancelAll,
                              ca_Time = UnixMilli (Now e (length (calls t)))\<rparr>]\<rparr>"
  by (simp add: CancelAllOrders_def Let_def split: sum.splits)

lemma example_index:
  "getMarketIndex example_env example_trader ''ETHUSDT'' = (Inr 0, example_trader)"
  by (simp add: getMarketIndex_def example_trader_def example_cache_def
      convertSymbolToLighterCoin_def eth_market_def Let_def)

text \<open>
  C9. Once the market index is resolved, \<open>SetLeverage\<close> divides 10000 by the leverage
  with no check: leverage 0 is a division by zero (a panic), every other leverage is
  not, and for a leverage of at least 1 the margin fraction sent is the quotient, which
  fits 16 bits. \<open>OpenLong\<close> and \<open>OpenShort\<close> call \<open>SetLeverage\<close> after their first
  cancel-all and panic with it.
\<close>

theorem SetLeverage_division:
  assumes "getMarketIndex e t symbol = (Inr marketIndex, t1)"
  shows "SetLeverage e t symbol 0 = (Inl PanicDivideByZero, t1)
     \<and> (leverage \<noteq> 0 \<longrightarrow> fst (SetLeverage e t symbol leverage) \<noteq> Inl PanicDivideByZero)
     \<and> (1 \<le> leverage \<longrightarrow>
          new_calls t1 (snd (SetLeverage e t symbol leverage)) =
            [CallUpdateLeverage \<lparr>ul_MarketIndex = marketIndex,
               ul_InitialMarginFraction = word_of_int (10000 div leverage),
               ul_MarginMode = CrossMargin\<rparr>]
          \<and> uint (word_of_int (10000 div leverage) :: uint16) = 10000 div leverage)
     \<and> (t = snd (CancelAllOrders e t0 symbol) \<longrightarrow>
          OpenLong e t0 symbol quantity 0 = (Inl PanicDivideByZero, t1)
          \<and> OpenShort e t0 symbol quantity 0 = (Inl PanicDivideByZero, t1))"
proof -
  have z: "SetLeverage e t symbol 0 = (Inl PanicDivideByZero, t1)"
    by (simp add: SetLeverage_def assms)
  have nz: "leverage \<noteq> 0 \<longrightarrow> fst (SetLeverage e t symbol leverage) \<noteq> Inl PanicDivideByZero"
    by (simp add: SetLeverage_def assms Let_def split: sum.splits)
  have pos: "1 \<le> leverage \<longrightarrow>
          new_calls t1 (snd (SetLeverage e t symbol leverage)) =
            [CallUpdateLeverage \<lparr>ul_MarketIndex = marketIndex,
               ul_InitialMarginFraction = word_of_int (10000 div leverage),
               ul_MarginMode = CrossMargin\<rparr>]
          \<and> uint (word_of_int (10000 div leverage) :: uint16) = 10000 div leverage"
  proof
    assume l: "1 \<le> leverage"
    then have g: "go_quot 10000 leverage = 10000 div leverage"
      by (simp add: go_quot_nonneg)
    have "0 \<le> 10000 div leverage"
      using l by (simp add: pos_imp_zdiv_nonneg_iff)
    moreover have "10000 div leverage \<le> 10000"
      using l zdiv_mono2 [of 10000 1 leverage] by simp
    ultimately have u: "uint (word_of_int (10000 div leverage) :: uint16) = 10000 div leverage"
      by (simp add: uint_word_of_int_eq take_bit_int_eq_self)
    have "new_calls t1 (snd (SetLeverage e t symbol leverage)) =
            [CallUpdateLeverage \<lparr>ul_MarketIndex = marketIndex,
               ul_InitialMarginFraction = word_of_int (10000 div leverage),
               ul_MarginMode = CrossMargin\<rparr>]"
      using l by (simp add: SetLeverage_def assms Let_def g new_calls_def split: sum.splits)
    with u show "new_calls t1 (snd (SetLeverage e t symbol leverage)) =
            [CallUpdateLeverage \<lparr>ul_MarketIndex = marketIndex,
               ul_InitialMarginFraction = word_of_int (10000 div leverage),
               ul_MarginMode = CrossMargin\<rparr>]
          \<and> uint (word_of_int (10000 div leverage) :: uint16) = 10000 div leverage"
      by (intro conjI)
  qed
  have op: "t = snd (CancelAllOrders e t0 symbol) \<longrightarrow>
          OpenLong e t0 symbol quantity 0 = (Inl PanicDivideByZero, t1)
          \<and> OpenShort e t0 symbol quantity 0 = (Inl PanicDivideByZero, t1)"
  proof
    assume t: "t = snd (CancelAllOrders e t0 symbol)"
    show "OpenLong e t0 symbol quantity 0 = (Inl PanicDivideByZero, t1)
          \<and> OpenShort e t0 symbol quantity 0 = (Inl PanicDivideByZero, t1)"
      using z unfolding t by (simp add: OpenLong_def OpenShort_def)
  qed
  show ?thesis
    using z nz pos op by (intro conjI)
qed

theorem SetLeverage_division_witness:
  "SetLeverage example_env example_trader ''ETHUSDT'' 0 = (Inl PanicDivideByZero, example_trader)
   \<and> new_calls example_trader (snd (SetLeverage example_env example_trader ''ETHUSDT'' 10)) =
       [CallUpdateLeverage \<lparr>ul_MarketIndex = 0, ul_InitialMarginFraction = 1000,
          ul_MarginMode = CrossMargin\<rparr>]
   \<and> fst (SetLeverage example_env example_trader ''ETHUSDT'' (- 3)) \<noteq> Inl PanicDivideByZero"
proof -
  note w = SetLeverage_division [OF example_index]
  have w1: "SetLeverage example_env example_trader ''ETHUSDT'' 0 = (Inl PanicDivideByZero, example_trader)"
    by (rule w [THEN conjunct1])
  have "new_calls example_trader (snd (SetLeverage example_env example_trader ''ETHUSDT'' 10)) =
       [CallUpdateLeverage \<lparr>ul_MarketIndex = 0,
          ul_InitialMarginFraction = word_of_int (10000 div 10),
          ul_MarginMode = CrossMargin\<rparr>]"
    using w [where leverage = 10, THEN conjunct2, THEN conjunct2, THEN conjunct1] by simp
  then have w2: "new_calls example_trader (snd (SetLeverage example_env example_trader ''ETHUSDT'' 10)) =
       [CallUpdateLeverage \<lparr>ul_MarketIndex = 0, ul_InitialMarginFraction = 1000,
          ul_MarginMode = CrossMargin\<rparr>]"
    by simp
  have w3: "fst (SetLeverage example_env example_trader ''ETHUSDT'' (- 3)) \<noteq> Inl PanicDivideByZero"
    using w [where leverage = "- 3", THEN conjunct2, THEN conjunct1] by simp
  show ?thesis
    using w1 w2 w3 by (intro conjI)
qed


subsection \<open>Closing a position\<close>

lemma CloseLong_close_position:
  "CloseLong =
     close_position ''long'' (round_float64 (99 / 100)) 1 ErrCloseLong ErrNoLongPosition"
  by (intro ext) (simp only: CloseLong_def close_position_def)

lemma CloseShort_close_position:
  "CloseShort =
     close_position ''short'' (round_float64 (101 / 100)) 0 ErrCloseShort ErrNoShortPosition"
  by (intro ext) (simp only: CloseShort_def close_position_def)

lemma only_queries_refl: "only_queries t t"
  by (simp add: only_queries_def)

lemma only_queries_trans:
  "only_queries t t1 \<Longrightarrow> only_queries t1 t2 \<Longrightarrow> only_queries t t2"
  by (auto simp: only_queries_def)

lemma only_queries_GetPositions: "only_queries t (snd (GetPositions e t))"
  by (simp add: GetPositions_calls only_queries_def)

lemma only_queries_loadMarketInfo: "only_queries t (snd (loadMarketInfo e t))"
  by (simp add: loadMarketInfo_def only_queries_def Let_def
      split: http_result.splits sum.splits)

lemma only_queries_getMarketIndex: "only_queries t (snd (getMarketIndex e t symbol))"
proof (cases "marketInfoCache t (convertSymbolToLighterCoin symbol)")
  case None
  have "snd (getMarketIndex e t symbol) = snd (loadMarketInfo e t)"
    using None
    by (simp add: getMarketIndex_def Let_def split: prod.splits sum.splits option.splits)
  then show ?thesis
    by (simp add: only_queries_loadMarketInfo)
next
  case (Some info)
  then show ?thesis
    by (simp add: getMarketIndex_def Let_def only_queries_refl)
qed

lemma only_queries_GetMarketPrice: "only_queries t (snd (GetMarketPrice e t symbol))"
  by (simp add: GetMarketPrice_def Let_def only_queries_def
      split: option.splits http_result.splits sum.splits)


lemma oq_GetPositions: "GetPositions e t = (r, t1) \<Longrightarrow> only_queries t t1"
  using only_queries_GetPositions [of t e] by simp

lemma oq_getMarketIndex: "getMarketIndex e t symbol = (r, t1) \<Longrightarrow> only_queries t t1"
  using only_queries_getMarketIndex [of t e symbol] by simp

lemma oq_GetMarketPrice: "GetMarketPrice e t symbol = (r, t1) \<Longrightarrow> only_queries t t1"
  using only_queries_GetMarketPrice [of t e symbol] by simp

lemma close_position_shape:
  assumes "close_position side factor isAsk submitErr noErr e t symbol q0 = (r, t')"
  shows "(\<exists>err. r = Inl err \<and> only_queries t t')
       \<or> (\<exists>t3 req x. only_queries t t3
             \<and> GetCreateOrderTransaction e (length (calls t3)) req = Inl x
             \<and> r = Inl (submitErr x) \<and> calls t' = calls t3 @ [CallCreateOrder req])
       \<or> (\<exists>t3 req h res creq. only_queries t t3
             \<and> GetCreateOrderTransaction e (length (calls t3)) req = Inr h
             \<and> r = Inr res
             \<and> calls t' = calls t3 @ [CallCreateOrder req, CallCancelAllOrders creq])"
proof -
  obtain r1 t1 where s1: "(if q0 = 0
            then (case GetPositions e t of
                    (Inl err, t1) \<Rightarrow> (Inl err, t1)
                  | (Inr positions, t1) \<Rightarrow>
                      (let quantity = find_positionAmt symbol side positions q0
                       in if quantity = 0 then (Inl (noErr symbol), t1)
                          else (Inr quantity, t1)))
            else (Inr q0, t)) = (r1, t1)"
    by (cases "(if q0 = 0
            then (case GetPositions e t of
                    (Inl err, t1) \<Rightarrow> (Inl err, t1)
                  | (Inr positions, t1) \<Rightarrow>
                      (let quantity = find_positionAmt symbol side positions q0
                       in if quantity = 0 then (Inl (noErr symbol), t1)
                          else (Inr quantity, t1)))
            else (Inr q0, t))") blast
  have oq1: "only_queries t t1"
    using s1 oq_GetPositions [of e t]
    by (auto simp: Let_def only_queries_refl split: if_splits prod.splits sum.splits)
  show ?thesis
  proof (cases r1)
    case (Inl err)
    then have "r = Inl err" "t' = t1"
      using assms s1 by (simp_all add: close_position_def)
    then show ?thesis using oq1 by blast
  next
    case q: (Inr quantity)
    obtain r2 t2 where s2: "getMarketIndex e t1 symbol = (r2, t2)"
      by (cases "getMarketIndex e t1 symbol") blast
    have oq2: "only_queries t t2"
      using oq1 oq_getMarketIndex [OF s2] by (rule only_queries_trans)
    show ?thesis
    proof (cases r2)
      case (Inl err)
      then have "r = Inl err" "t' = t2"
        using assms s1 q s2 by (simp_all add: close_position_def)
      then show ?thesis using oq2 by blast
    next
      case m: (Inr marketIndex)
      obtain r3 t3 where s3: "GetMarketPrice e t2 symbol = (r3, t3)"
        by (cases "GetMarketPrice e t2 symbol") blast
      have oq3: "only_queries t t3"
        using oq2 oq_GetMarketPrice [OF s3] by (rule only_queries_trans)
      show ?thesis
      proof (cases r3)
        case (Inl err)
        then have "r = Inl err" "t' = t3"
          using assms s1 q s2 m s3 by (simp_all add: close_position_def)
        then show ?thesis using oq3 by blast
      next
        case p: (Inr price)
        define req where "req =
           \<lparr>co_MarketIndex = marketIndex,
            co_ClientOrderIndex = go_quot (Now e (length (calls t3))) 1000000,
            co_BaseAmount = convertToBaseAmount (marketInfoCache t3) symbol quantity,
            co_Price = convertToLighterPrice (marketInfoCache t3) symbol (fmul price factor),
            co_IsAsk = isAsk,
            co_Type = LimitOrder,
            co_TimeInForce = ImmediateOrCancel,
            co_ReduceOnly = 1,
            co_TriggerPrice = None,
            co_OrderExpiry = None\<rparr>"
        show ?thesis
        proof (cases "GetCreateOrderTransaction e (length (calls t3)) req")
          case (Inl x)
          then have "r = Inl (submitErr x)" "calls t' = calls t3 @ [CallCreateOrder req]"
            using assms s1 q s2 m s3 p
            by (auto simp: close_position_def Let_def req_def)
          then show ?thesis using oq3 Inl by blast
        next
          case (Inr h)
          then have "\<exists>res. r = Inr res"
            "\<exists>creq. calls t' = calls t3 @ [CallCreateOrder req, CallCancelAllOrders creq]"
            using assms s1 q s2 m s3 p
            by (auto simp: close_position_def Let_def req_def CancelAllOrders_state)
          then show ?thesis using oq3 Inr by blast
        qed
      qed
    qed
  qed
qed


lemma new_calls_append: "calls t' = calls t @ xs \<Longrightarrow> new_calls t t' = xs"
  by (simp add: new_calls_def)

lemma close_position_cancel:
  assumes c: "close_position side factor isAsk submitErr noErr e t symbol q0 = (r, t')"
    and m: "CallCreateOrder req \<in> set (new_calls t t')"
  shows "\<exists>pre. list_all is_query pre \<and>
      (case GetCreateOrderTransaction e (length (calls t) + length pre) req of
         Inl x \<Rightarrow> r = Inl (submitErr x) \<and> new_calls t t' = pre @ [CallCreateOrder req]
       | Inr h \<Rightarrow> (\<exists>res creq. r = Inr res
           \<and> new_calls t t' = pre @ [CallCreateOrder req, CallCancelAllOrders creq]))"
proof -
  have nq: "list_all is_query pre \<Longrightarrow> CallCreateOrder req \<notin> set pre" for pre
    by (auto simp: list_all_iff)
  from close_position_shape [OF c] consider
    (queries) err where "r = Inl err" "only_queries t t'"
  | (refused) t3 req' x where "only_queries t t3"
      "GetCreateOrderTransaction e (length (calls t3)) req' = Inl x"
      "r = Inl (submitErr x)" "calls t' = calls t3 @ [CallCreateOrder req']"
  | (submitted) t3 req' h res creq where "only_queries t t3"
      "GetCreateOrderTransaction e (length (calls t3)) req' = Inr h"
      "r = Inr res" "calls t' = calls t3 @ [CallCreateOrder req', CallCancelAllOrders creq]"
    by blast
  then show ?thesis
  proof cases
    case queries
    then obtain pre where "calls t' = calls t @ pre" "list_all is_query pre"
      by (auto simp: only_queries_def)
    then have "new_calls t t' = pre" "CallCreateOrder req \<notin> set pre"
      using nq by (simp_all add: new_calls_append)
    with m show ?thesis by simp
  next
    case refused
    then obtain pre where pre: "calls t3 = calls t @ pre" "list_all is_query pre"
      by (auto simp: only_queries_def)
    then have n: "new_calls t t' = pre @ [CallCreateOrder req']"
      using refused(4) by (simp add: new_calls_append)
    with m nq [OF pre(2)] have "req' = req" by simp
    then show ?thesis
      using refused(2,3) pre n by (intro exI [of _ pre]) simp
  next
    case submitted
    then obtain pre where pre: "calls t3 = calls t @ pre" "list_all is_query pre"
      by (auto simp: only_queries_def)
    then have n: "new_calls t t' = pre @ [CallCreateOrder req', CallCancelAllOrders creq]"
      using submitted(4) by (simp add: new_calls_append)
    with m nq [OF pre(2)] have "req' = req" by simp
    then show ?thesis
      using submitted(2,3) pre n by (intro exI [of _ pre]) simp
  qed
qed

lemma close_long_refused:
  "fst (CloseLong no_order_env example_trader ''ETHUSDT'' 1) = Inl (ErrCloseLong ''refused'')
   \<and> new_calls example_trader (snd (CloseLong no_order_env example_trader ''ETHUSDT'' 1)) =
       [CallGetOrderBookDetails 0, CallCreateOrder close_long_order]"
  by code_simp

text \<open>
  C2 (as the code has it). In \<open>CloseLong\<close> and in \<open>CloseShort\<close>, once the order has
  been handed to the transaction client, what follows depends on the client's answer.
  Before the submission there are only queries. If the client accepts the order, the
  next and last call is the cancel-all and the operation succeeds; if the client refuses
  it, the submission is the last call, no cancel-all is made, and the operation returns
  the submission error.
\<close>

theorem Close_cancel_only_after_success:
  "(CloseLong e t symbol quantity = (r, t') \<and> CallCreateOrder req \<in> set (new_calls t t') \<longrightarrow>
      (\<exists>pre. list_all is_query pre \<and>
        (case GetCreateOrderTransaction e (length (calls t) + length pre) req of
           Inl x \<Rightarrow> r = Inl (ErrCloseLong x) \<and> new_calls t t' = pre @ [CallCreateOrder req]
         | Inr h \<Rightarrow> (\<exists>res creq. r = Inr res
             \<and> new_calls t t' = pre @ [CallCreateOrder req, CallCancelAllOrders creq]))))
   \<and> (CloseShort e t symbol quantity = (r, t') \<and> CallCreateOrder req \<in> set (new_calls t t') \<longrightarrow>
      (\<exists>pre. list_all is_query pre \<and>
        (case GetCreateOrderTransaction e (length (calls t) + length pre) req of
           Inl x \<Rightarrow> r = Inl (ErrCloseShort x) \<and> new_calls t t' = pre @ [CallCreateOrder req]
         | Inr h \<Rightarrow> (\<exists>res creq. r = Inr res
             \<and> new_calls t t' = pre @ [CallCreateOrder req, CallCancelAllOrders creq]))))"
  unfolding CloseLong_close_position CloseShort_close_position
  using close_position_cancel by blast


theorem Close_cancel_only_after_success_witness:
  "CallCreateOrder close_long_order
     \<in> set (new_calls example_trader (snd (CloseLong no_order_env example_trader ''ETHUSDT'' 1)))
   \<and> (\<exists>pre. list_all is_query pre
        \<and> fst (CloseLong no_order_env example_trader ''ETHUSDT'' 1) = Inl (ErrCloseLong ''refused'')
        \<and> new_calls example_trader (snd (CloseLong no_order_env example_trader ''ETHUSDT'' 1)) =
            pre @ [CallCreateOrder close_long_order])"
proof -
  define r where "r = fst (CloseLong no_order_env example_trader ''ETHUSDT'' 1)"
  define t' where "t' = snd (CloseLong no_order_env example_trader ''ETHUSDT'' 1)"
  have run: "CloseLong no_order_env example_trader ''ETHUSDT'' 1 = (r, t')"
    by (simp add: r_def t'_def)
  have n: "new_calls example_trader t' = [CallGetOrderBookDetails 0, CallCreateOrder close_long_order]"
    unfolding t'_def by (rule close_long_refused [THEN conjunct2])
  have m: "CallCreateOrder close_long_order \<in> set (new_calls example_trader t')"
    by (simp add: n)
  have refuse: "GetCreateOrderTransaction no_order_env k req = Inl ''refused''" for k req
    by (simp add: no_order_env_def)
  have "\<exists>pre. list_all is_query pre \<and>
        (case GetCreateOrderTransaction no_order_env (length (calls example_trader) + length pre)
                close_long_order of
           Inl x \<Rightarrow> r = Inl (ErrCloseLong x)
             \<and> new_calls example_trader t' = pre @ [CallCreateOrder close_long_order]
         | Inr h \<Rightarrow> (\<exists>res creq. r = Inr res
             \<and> new_calls example_trader t' =
                 pre @ [CallCreateOrder close_long_order, CallCancelAllOrders creq]))"
    by (rule Close_cancel_only_after_success [THEN conjunct1, THEN mp, OF conjI, OF run m])
  then have "\<exists>pre. list_all is_query pre \<and> r = Inl (ErrCloseLong ''refused'')
      \<and> new_calls example_trader t' = pre @ [CallCreateOrder close_long_order]"
    by (simp add: refuse)
  then show ?thesis
    using m unfolding r_def t'_def by (intro conjI)
qed

text \<open>A refused close order is not followed by a cancel-all: the calls are the price
  query and the submission, and nothing after it.\<close>

theorem CloseLong_refused_no_cancel:
  "fst (CloseLong no_order_env example_trader ''ETHUSDT'' 1) = Inl (ErrCloseLong ''refused'')
   \<and> new_calls example_trader (snd (CloseLong no_order_env example_trader ''ETHUSDT'' 1)) =
       [CallGetOrderBookDetails 0, CallCreateOrder close_long_order]"
  by (rule close_long_refused)

subsection \<open>Opening a long position\<close>

lemma getMarketIndex_hit:
  "marketInfoCache t (convertSymbolToLighterCoin symbol) = Some info \<Longrightarrow>
     getMarketIndex e t symbol = (Inr (ob_MarketID info), t)"
  by (simp add: getMarketIndex_def)

lemma getMarketIndex_result:
  assumes "getMarketIndex e t symbol = (r, t1)"
  shows "(new_calls t t1 = [] \<or> new_calls t t1 = [CallGetOrderBooks])
     \<and> calls t1 = calls t @ new_calls t t1
     \<and> (\<forall>m. r = Inr m \<longrightarrow>
          (\<exists>info. marketInfoCache t1 (convertSymbolToLighterCoin symbol) = Some info
             \<and> ob_MarketID info = m))"
proof (cases "marketInfoCache t (convertSymbolToLighterCoin symbol)")
  case (Some info)
  then show ?thesis
    using assms by (auto simp: getMarketIndex_hit new_calls_def)
next
  case None
  obtain r0 t0 where l: "loadMarketInfo e t = (r0, t0)"
    by (cases "loadMarketInfo e t") blast
  have c: "calls t0 = calls t @ [CallGetOrderBooks]"
    using l loadMarketInfo_success [of e t _ t0] loadMarketInfo_failure [of e t _ t0]
    by (cases r0) auto
  have "t1 = t0"
    using assms None l
    by (auto simp: getMarketIndex_def Let_def split: sum.splits option.splits)
  moreover have "\<forall>m. r = Inr m \<longrightarrow>
          (\<exists>info. marketInfoCache t0 (convertSymbolToLighterCoin symbol) = Some info
             \<and> ob_MarketID info = m)"
    using assms None l
    by (auto simp: getMarketIndex_def Let_def split: sum.splits option.splits)
  ultimately show ?thesis
    using c by (simp add: new_calls_def)
qed

lemma GetMarketPrice_result:
  assumes "GetMarketPrice e t symbol = (Inr p, t3)"
  shows "\<exists>info. marketInfoCache t (convertSymbolToLighterCoin symbol) = Some info
     \<and> t3 = t\<lparr>calls := calls t @ [CallGetOrderBookDetails (ob_MarketID info)]\<rparr>"
  using assms
  by (auto simp: GetMarketPrice_def Let_def
      split: option.splits http_result.splits sum.splits if_splits)

lemma SetLeverage_result:
  assumes "SetLeverage e t symbol L = (r, t2)"
  shows "\<exists>reload. (reload = [] \<or> reload = [CallGetOrderBooks])
     \<and> calls t2 = calls t @ new_calls t t2
     \<and> ((\<exists>err. r = Inl err \<and> new_calls t t2 = reload)
        \<or> (\<exists>info. marketInfoCache t2 (convertSymbolToLighterCoin symbol) = Some info
             \<and> new_calls t t2 = reload @
                 [CallUpdateLeverage \<lparr>ul_MarketIndex = ob_MarketID info,
                    ul_InitialMarginFraction = word_of_int (go_quot 10000 L),
                    ul_MarginMode = CrossMargin\<rparr>]))"
proof -
  obtain r1 t1 where g: "getMarketIndex e t symbol = (r1, t1)"
    by (cases "getMarketIndex e t symbol") blast
  note s = getMarketIndex_result [OF g]
  define reload where "reload = new_calls t t1"
  have rl: "reload = [] \<or> reload = [CallGetOrderBooks]" and c1: "calls t1 = calls t @ reload"
    using s by (simp_all add: reload_def)
  show ?thesis
  proof (cases r1)
    case (Inl err)
    then have "r = Inl err" "t2 = t1"
      using assms g by (simp_all add: SetLeverage_def)
    then show ?thesis
      using rl c1 by (intro exI [of _ reload]) (simp add: new_calls_def)
  next
    case (Inr m)
    then obtain info where info: "marketInfoCache t1 (convertSymbolToLighterCoin symbol) = Some info"
        "ob_MarketID info = m"
      using s by blast
    show ?thesis
    proof (cases "L = 0")
      case True
      then have "r = Inl PanicDivideByZero" "t2 = t1"
        using assms g Inr by (simp_all add: SetLeverage_def)
      then show ?thesis
        using rl c1 by (intro exI [of _ reload]) (simp add: new_calls_def)
    next
      case False
      then have "t2 = t1\<lparr>calls := calls t1 @
                 [CallUpdateLeverage \<lparr>ul_MarketIndex = ob_MarketID info,
                    ul_InitialMarginFraction = word_of_int (go_quot 10000 L),
                    ul_MarginMode = CrossMargin\<rparr>]\<rparr>"
        using assms g Inr info(2) by (auto simp: SetLeverage_def Let_def split: sum.splits)
      then show ?thesis
        using rl c1 info(1) by (intro exI [of _ reload]) (simp add: new_calls_def)
    qed
  qed
qed


lemma OpenLong_aborts:
  assumes "SetLeverage e (snd (CancelAllOrders e t symbol)) symbol L = (Inl err, t2)"
  shows "OpenLong e t symbol quantity L = (Inl err, t2)
     \<and> (\<forall>m. CallGetOrderBookDetails m \<notin> set (new_calls t t2))
     \<and> (\<forall>req. CallCreateOrder req \<notin> set (new_calls t t2))"
proof -
  define t1 where "t1 = snd (CancelAllOrders e t symbol)"
  have c1: "calls t1 = calls t @
        [CallCancelAllOrders \<lparr>ca_TimeInForce = ImmediateCancelAll,
                              ca_Time = UnixMilli (Now e (length (calls t)))\<rparr>]"
    by (simp add: t1_def CancelAllOrders_state)
  from SetLeverage_result [OF assms [folded t1_def]] obtain reload where
    rl: "reload = [] \<or> reload = [CallGetOrderBooks]" and
    c2: "calls t2 = calls t1 @ new_calls t1 t2" and
    n: "new_calls t1 t2 = reload
        \<or> (\<exists>lreq. new_calls t1 t2 = reload @ [CallUpdateLeverage lreq])"
    by blast
  have "calls t2 = calls t @
        CallCancelAllOrders \<lparr>ca_TimeInForce = ImmediateCancelAll,
                              ca_Time = UnixMilli (Now e (length (calls t)))\<rparr> # new_calls t1 t2"
    using c1 c2 by simp
  then have "new_calls t t2 =
        CallCancelAllOrders \<lparr>ca_TimeInForce = ImmediateCancelAll,
                              ca_Time = UnixMilli (Now e (length (calls t)))\<rparr> # new_calls t1 t2"
    by (rule new_calls_append)
  then have "(\<forall>m. CallGetOrderBookDetails m \<notin> set (new_calls t t2))
     \<and> (\<forall>req. CallCreateOrder req \<notin> set (new_calls t t2))"
    using rl n by auto
  moreover have "OpenLong e t symbol quantity L = (Inl err, t2)"
    using assms by (simp add: OpenLong_def)
  ultimately show ?thesis by simp
qed

lemma OpenLong_submits:
  assumes lev: "SetLeverage e (snd (CancelAllOrders e t symbol)) symbol L = (Inr (), t2)"
    and price: "GetMarketPrice e t2 symbol = (Inr p, t3)"
  shows "\<exists>creq reload lreq oreq.
       new_calls t (snd (OpenLong e t symbol quantity L)) =
         CallCancelAllOrders creq # reload @
           [CallUpdateLeverage lreq, CallGetOrderBookDetails (ul_MarketIndex lreq),
            CallCreateOrder oreq]
     \<and> (reload = [] \<or> reload = [CallGetOrderBooks])
     \<and> ul_InitialMarginFraction lreq = word_of_int (go_quot 10000 L)
     \<and> oreq = \<lparr>co_MarketIndex = ul_MarketIndex lreq,
               co_ClientOrderIndex = go_quot (Now e (length (calls t3))) 1000000,
               co_BaseAmount = convertToBaseAmount (marketInfoCache t3) symbol quantity,
               co_Price = convertToLighterPrice (marketInfoCache t3) symbol (fmul p (round_float64 (101 / 100))),
               co_IsAsk = 0, co_Type = LimitOrder, co_TimeInForce = ImmediateOrCancel,
               co_ReduceOnly = 0, co_TriggerPrice = None, co_OrderExpiry = None\<rparr>"
proof -
  define t1 where "t1 = snd (CancelAllOrders e t symbol)"
  define creq where "creq = \<lparr>ca_TimeInForce = ImmediateCancelAll,
                              ca_Time = UnixMilli (Now e (length (calls t)))\<rparr>"
  have c1: "calls t1 = calls t @ [CallCancelAllOrders creq]"
    by (simp add: t1_def creq_def CancelAllOrders_state)
  from SetLeverage_result [OF lev [folded t1_def]] obtain reload info where
    rl: "reload = [] \<or> reload = [CallGetOrderBooks]" and
    c2: "calls t2 = calls t1 @ new_calls t1 t2" and
    info: "marketInfoCache t2 (convertSymbolToLighterCoin symbol) = Some info" and
    n: "new_calls t1 t2 = reload @
                 [CallUpdateLeverage \<lparr>ul_MarketIndex = ob_MarketID info,
                    ul_InitialMarginFraction = word_of_int (go_quot 10000 L),
                    ul_MarginMode = CrossMargin\<rparr>]"
    by blast
  define lreq where "lreq = \<lparr>ul_MarketIndex = ob_MarketID info,
                    ul_InitialMarginFraction = word_of_int (go_quot 10000 L),
                    ul_MarginMode = CrossMargin\<rparr>"
  have idx: "getMarketIndex e t2 symbol = (Inr (ob_MarketID info), t2)"
    by (rule getMarketIndex_hit [OF info])
  from GetMarketPrice_result [OF price] info have
    t3: "t3 = t2\<lparr>calls := calls t2 @ [CallGetOrderBookDetails (ob_MarketID info)]\<rparr>"
    by simp
  define oreq where "oreq = \<lparr>co_MarketIndex = ob_MarketID info,
               co_ClientOrderIndex = go_quot (Now e (length (calls t3))) 1000000,
               co_BaseAmount = convertToBaseAmount (marketInfoCache t3) symbol quantity,
               co_Price = convertToLighterPrice (marketInfoCache t3) symbol (fmul p (round_float64 (101 / 100))),
               co_IsAsk = 0, co_Type = LimitOrder, co_TimeInForce = ImmediateOrCancel,
               co_ReduceOnly = 0, co_TriggerPrice = None, co_OrderExpiry = None\<rparr>"
  have "snd (OpenLong e t symbol quantity L) = t3\<lparr>calls := calls t3 @ [CallCreateOrder oreq]\<rparr>"
    using lev [folded t1_def] idx price
    by (simp add: OpenLong_def t1_def [symmetric] Let_def oreq_def split: sum.splits)
  then have "calls (snd (OpenLong e t symbol quantity L)) =
      calls t @ CallCancelAllOrders creq # reload @
        [CallUpdateLeverage lreq, CallGetOrderBookDetails (ob_MarketID info), CallCreateOrder oreq]"
    using t3 c2 n c1 by (simp add: lreq_def)
  then have "new_calls t (snd (OpenLong e t symbol quantity L)) =
      CallCancelAllOrders creq # reload @
        [CallUpdateLeverage lreq, CallGetOrderBookDetails (ul_MarketIndex lreq), CallCreateOrder oreq]"
    by (simp add: new_calls_append lreq_def)
  moreover have "ul_InitialMarginFraction lreq = word_of_int (go_quot 10000 L)"
    by (simp add: lreq_def)
  moreover have "oreq = \<lparr>co_MarketIndex = ul_MarketIndex lreq,
               co_ClientOrderIndex = go_quot (Now e (length (calls t3))) 1000000,
               co_BaseAmount = convertToBaseAmount (marketInfoCache t3) symbol quantity,
               co_Price = convertToLighterPrice (marketInfoCache t3) symbol (fmul p (round_float64 (101 / 100))),
               co_IsAsk = 0, co_Type = LimitOrder, co_TimeInForce = ImmediateOrCancel,
               co_ReduceOnly = 0, co_TriggerPrice = None, co_OrderExpiry = None\<rparr>"
    by (simp add: oreq_def lreq_def)
  ultimately show ?thesis
    using rl by blast
qed

lemma imf_quotient:
  assumes "1 \<le> L"
  shows "uint (word_of_int (go_quot 10000 L) :: uint16) = 10000 div L"
proof -
  have g: "go_quot 10000 L = 10000 div L"
    using assms by (simp add: go_quot_nonneg)
  have "0 \<le> 10000 div L"
    using assms by (simp add: pos_imp_zdiv_nonneg_iff)
  moreover have "10000 div L \<le> 10000"
    using assms zdiv_mono2 [of 10000 1 L] by simp
  ultimately show ?thesis
    by (simp add: g uint_word_of_int_eq take_bit_int_eq_self)
qed

lemma open_long_run:
  "fst (SetLeverage example_env (snd (CancelAllOrders example_env example_trader ''ETHUSDT''))
          ''ETHUSDT'' 10) = Inr ()"
  "fst (GetMarketPrice example_env
          (snd (SetLeverage example_env
                 (snd (CancelAllOrders example_env example_trader ''ETHUSDT'')) ''ETHUSDT'' 10))
          ''ETHUSDT'') = Inr 3000"
  "convertToLighterPrice
     (marketInfoCache (snd (GetMarketPrice example_env
          (snd (SetLeverage example_env
                 (snd (CancelAllOrders example_env example_trader ''ETHUSDT'')) ''ETHUSDT'' 10))
          ''ETHUSDT'')))
     ''ETHUSDT'' (fmul 3000 (round_float64 (101 / 100))) = 303000"
  "new_calls example_trader (snd (OpenLong example_env example_trader ''ETHUSDT'' (round_float64 (1 / 100)) 10)) =
     [CallCancelAllOrders \<lparr>ca_TimeInForce = ImmediateCancelAll, ca_Time = 1700000000000\<rparr>,
      CallUpdateLeverage \<lparr>ul_MarketIndex = 0, ul_InitialMarginFraction = 1000,
         ul_MarginMode = CrossMargin\<rparr>,
      CallGetOrderBookDetails 0,
      CallCreateOrder open_long_order]"
  "fst (SetLeverage no_leverage_env (snd (CancelAllOrders no_leverage_env example_trader ''ETHUSDT''))
          ''ETHUSDT'' 10) = Inl (ErrSetLeverage ''refused'')"
  by code_simp+

text \<open>
  C3. \<open>OpenLong\<close>, after its first cancel-all, sets the leverage. If that step fails
  (or panics), \<open>OpenLong\<close> returns its error and has made no price query and no order
  submission. If it succeeds and the price query yields \<open>p\<close>, the calls are, in this
  order: the cancel-all, a reload of the market list if the cache missed, the leverage
  update with margin fraction \<open>uint16(10000 / L)\<close> (the quotient itself when
  \<open>L \<ge> 1\<close>), the price query of the same market, and the submission of a buy
  (\<open>IsAsk = 0\<close>) immediate-or-cancel limit order, not reduce-only, whose price is the
  encoding of \<open>p * 1.01\<close>.
\<close>

theorem OpenLong_leverage_then_order:
  assumes "SetLeverage e (snd (CancelAllOrders e t symbol)) symbol L = (r, t2)"
  shows "(\<forall>err. r = Inl err \<longrightarrow>
            OpenLong e t symbol quantity L = (Inl err, t2)
          \<and> (\<forall>m. CallGetOrderBookDetails m \<notin> set (new_calls t t2))
          \<and> (\<forall>req. CallCreateOrder req \<notin> set (new_calls t t2)))
     \<and> (\<forall>p t3. r = Inr () \<and> GetMarketPrice e t2 symbol = (Inr p, t3) \<longrightarrow>
          (\<exists>creq reload lreq oreq.
             new_calls t (snd (OpenLong e t symbol quantity L)) =
               CallCancelAllOrders creq # reload @
                 [CallUpdateLeverage lreq, CallGetOrderBookDetails (ul_MarketIndex lreq),
                  CallCreateOrder oreq]
           \<and> (reload = [] \<or> reload = [CallGetOrderBooks])
           \<and> ul_InitialMarginFraction lreq = word_of_int (go_quot 10000 L)
           \<and> (1 \<le> L \<longrightarrow> uint (ul_InitialMarginFraction lreq) = 10000 div L)
           \<and> oreq = \<lparr>co_MarketIndex = ul_MarketIndex lreq,
                 co_ClientOrderIndex = go_quot (Now e (length (calls t3))) 1000000,
                 co_BaseAmount = convertToBaseAmount (marketInfoCache t3) symbol quantity,
                 co_Price = convertToLighterPrice (marketInfoCache t3) symbol (fmul p (round_float64 (101 / 100))),
                 co_IsAsk = 0, co_Type = LimitOrder, co_TimeInForce = ImmediateOrCancel,
                 co_ReduceOnly = 0, co_TriggerPrice = None, co_OrderExpiry = None\<rparr>))"
proof -
  have A: "\<forall>err. r = Inl err \<longrightarrow>
            OpenLong e t symbol quantity L = (Inl err, t2)
          \<and> (\<forall>m. CallGetOrderBookDetails m \<notin> set (new_calls t t2))
          \<and> (\<forall>req. CallCreateOrder req \<notin> set (new_calls t t2))"
  proof (intro allI impI)
  fix err
  assume "r = Inl err"
  with assms have a: "SetLeverage e (snd (CancelAllOrders e t symbol)) symbol L = (Inl err, t2)"
    by simp
  show "OpenLong e t symbol quantity L = (Inl err, t2)
          \<and> (\<forall>m. CallGetOrderBookDetails m \<notin> set (new_calls t t2))
          \<and> (\<forall>req. CallCreateOrder req \<notin> set (new_calls t t2))"
    by (rule OpenLong_aborts [OF a])
qed
  have B: "\<forall>p t3. r = Inr () \<and> GetMarketPrice e t2 symbol = (Inr p, t3) \<longrightarrow>
          (\<exists>creq reload lreq oreq.
             new_calls t (snd (OpenLong e t symbol quantity L)) =
               CallCancelAllOrders creq # reload @
                 [CallUpdateLeverage lreq, CallGetOrderBookDetails (ul_MarketIndex lreq),
                  CallCreateOrder oreq]
           \<and> (reload = [] \<or> reload = [CallGetOrderBooks])
           \<and> ul_InitialMarginFraction lreq = word_of_int (go_quot 10000 L)
           \<and> (1 \<le> L \<longrightarrow> uint (ul_InitialMarginFraction lreq) = 10000 div L)
           \<and> oreq = \<lparr>co_MarketIndex = ul_MarketIndex lreq,
                 co_ClientOrderIndex = go_quot (Now e (length (calls t3))) 1000000,
                 co_BaseAmount = convertToBaseAmount (marketInfoCache t3) symbol quantity,
                 co_Price = convertToLighterPrice (marketInfoCache t3) symbol (fmul p (round_float64 (101 / 100))),
                 co_IsAsk = 0, co_Type = LimitOrder, co_TimeInForce = ImmediateOrCancel,
                 co_ReduceOnly = 0, co_TriggerPrice = None, co_OrderExpiry = None\<rparr>)"
  proof (intro allI impI)
  fix p t3
  assume "r = Inr () \<and> GetMarketPrice e t2 symbol = (Inr p, t3)"
  with assms have a: "SetLeverage e (snd (CancelAllOrders e t symbol)) symbol L = (Inr (), t2)"
    and b: "GetMarketPrice e t2 symbol = (Inr p, t3)"
    by simp_all
  from OpenLong_submits [OF a b, of quantity] obtain creq reload lreq oreq where
    f: "new_calls t (snd (OpenLong e t symbol quantity L)) =
         CallCancelAllOrders creq # reload @
           [CallUpdateLeverage lreq, CallGetOrderBookDetails (ul_MarketIndex lreq),
            CallCreateOrder oreq]"
      "reload = [] \<or> reload = [CallGetOrderBooks]"
      "ul_InitialMarginFraction lreq = word_of_int (go_quot 10000 L)"
      "oreq = \<lparr>co_MarketIndex = ul_MarketIndex lreq,
               co_ClientOrderIndex = go_quot (Now e (length (calls t3))) 1000000,
               co_BaseAmount = convertToBaseAmount (marketInfoCache t3) symbol quantity,
               co_Price = convertToLighterPrice (marketInfoCache t3) symbol (fmul p (round_float64 (101 / 100))),
               co_IsAsk = 0, co_Type = LimitOrder, co_TimeInForce = ImmediateOrCancel,
               co_ReduceOnly = 0, co_TriggerPrice = None, co_OrderExpiry = None\<rparr>"
    by (elim exE conjE)
  have "1 \<le> L \<longrightarrow> uint (ul_InitialMarginFraction lreq) = 10000 div L"
    using imf_quotient [of L] f(3) by simp
  with f show "\<exists>creq reload lreq oreq.
             new_calls t (snd (OpenLong e t symbol quantity L)) =
               CallCancelAllOrders creq # reload @
                 [CallUpdateLeverage lreq, CallGetOrderBookDetails (ul_MarketIndex lreq),
                  CallCreateOrder oreq]
           \<and> (reload = [] \<or> reload = [CallGetOrderBooks])
           \<and> ul_InitialMarginFraction lreq = word_of_int (go_quot 10000 L)
           \<and> (1 \<le> L \<longrightarrow> uint (ul_InitialMarginFraction lreq) = 10000 div L)
           \<and> oreq = \<lparr>co_MarketIndex = ul_MarketIndex lreq,
                 co_ClientOrderIndex = go_quot (Now e (length (calls t3))) 1000000,
                 co_BaseAmount = convertToBaseAmount (marketInfoCache t3) symbol quantity,
                 co_Price = convertToLighterPrice (marketInfoCache t3) symbol (fmul p (round_float64 (101 / 100))),
                 co_IsAsk = 0, co_Type = LimitOrder, co_TimeInForce = ImmediateOrCancel,
                 co_ReduceOnly = 0, co_TriggerPrice = None, co_OrderExpiry = None\<rparr>"
    by (intro exI [of _ creq] exI [of _ reload] exI [of _ lreq] exI [of _ oreq] conjI)
  qed
  show ?thesis
    using A B by (rule conjI)
qed


theorem OpenLong_leverage_then_order_witness:
  "(\<exists>creq reload lreq oreq.
      new_calls example_trader (snd (OpenLong example_env example_trader ''ETHUSDT'' (round_float64 (1 / 100)) 10)) =
        CallCancelAllOrders creq # reload @
          [CallUpdateLeverage lreq, CallGetOrderBookDetails (ul_MarketIndex lreq),
           CallCreateOrder oreq]
      \<and> uint (ul_InitialMarginFraction lreq) = 1000
      \<and> co_IsAsk oreq = 0 \<and> co_ReduceOnly oreq = 0 \<and> co_Type oreq = LimitOrder
      \<and> co_TimeInForce oreq = ImmediateOrCancel \<and> co_Price oreq = 303000)
   \<and> fst (OpenLong no_leverage_env example_trader ''ETHUSDT'' (round_float64 (1 / 100)) 10) =
       Inl (ErrSetLeverage ''refused'')"
proof -
  define t2 where "t2 = snd (SetLeverage example_env
      (snd (CancelAllOrders example_env example_trader ''ETHUSDT'')) ''ETHUSDT'' 10)"
  define t3 where "t3 = snd (GetMarketPrice example_env t2 ''ETHUSDT'')"
  have lev: "SetLeverage example_env (snd (CancelAllOrders example_env example_trader ''ETHUSDT''))
      ''ETHUSDT'' 10 = (Inr (), t2)"
    unfolding t2_def using open_long_run(1) by (simp add: prod_eq_iff)
  have price: "Inr () = (Inr () :: error + unit) \<and> GetMarketPrice example_env t2 ''ETHUSDT'' = (Inr 3000, t3)"
    unfolding t3_def t2_def using open_long_run(2) by (simp add: prod_eq_iff)
  have enc: "convertToLighterPrice (marketInfoCache t3) ''ETHUSDT'' (fmul 3000 (round_float64 (101 / 100))) = 303000"
    unfolding t3_def t2_def by (rule open_long_run(3))
  note B = OpenLong_leverage_then_order [OF lev, of "round_float64 (1 / 100)", THEN conjunct2, THEN spec, THEN spec,
      THEN mp, OF price]
  then obtain creq reload lreq oreq where
    f: "new_calls example_trader (snd (OpenLong example_env example_trader ''ETHUSDT'' (round_float64 (1 / 100)) 10)) =
        CallCancelAllOrders creq # reload @
          [CallUpdateLeverage lreq, CallGetOrderBookDetails (ul_MarketIndex lreq),
           CallCreateOrder oreq]"
      "1 \<le> (10::int) \<longrightarrow> uint (ul_InitialMarginFraction lreq) = 10000 div 10"
      "oreq = \<lparr>co_MarketIndex = ul_MarketIndex lreq,
                 co_ClientOrderIndex = go_quot (Now example_env (length (calls t3))) 1000000,
                 co_BaseAmount = convertToBaseAmount (marketInfoCache t3) ''ETHUSDT'' (round_float64 (1 / 100)),
                 co_Price = convertToLighterPrice (marketInfoCache t3) ''ETHUSDT'' (fmul 3000 (round_float64 (101 / 100))),
                 co_IsAsk = 0, co_Type = LimitOrder, co_TimeInForce = ImmediateOrCancel,
                 co_ReduceOnly = 0, co_TriggerPrice = None, co_OrderExpiry = None\<rparr>"
    by (elim exE conjE)
  have imf: "uint (ul_InitialMarginFraction lreq) = 1000"
    using f(2) by simp
  have o: "co_IsAsk oreq = 0" "co_ReduceOnly oreq = 0" "co_Type oreq = LimitOrder"
      "co_TimeInForce oreq = ImmediateOrCancel" "co_Price oreq = 303000"
    unfolding f(3) by (simp_all only: CreateOrderTxReq.select_convs enc)
  have w1: "\<exists>creq reload lreq oreq.
      new_calls example_trader (snd (OpenLong example_env example_trader ''ETHUSDT'' (round_float64 (1 / 100)) 10)) =
        CallCancelAllOrders creq # reload @
          [CallUpdateLeverage lreq, CallGetOrderBookDetails (ul_MarketIndex lreq),
           CallCreateOrder oreq]
      \<and> uint (ul_InitialMarginFraction lreq) = 1000
      \<and> co_IsAsk oreq = 0 \<and> co_ReduceOnly oreq = 0 \<and> co_Type oreq = LimitOrder
      \<and> co_TimeInForce oreq = ImmediateOrCancel \<and> co_Price oreq = 303000"
    using f(1) imf o
    by (intro exI [of _ creq] exI [of _ reload] exI [of _ lreq] exI [of _ oreq] conjI)
  define u2 where "u2 = snd (SetLeverage no_leverage_env
      (snd (CancelAllOrders no_leverage_env example_trader ''ETHUSDT'')) ''ETHUSDT'' 10)"
  have nolev: "SetLeverage no_leverage_env (snd (CancelAllOrders no_leverage_env example_trader ''ETHUSDT''))
      ''ETHUSDT'' 10 = (Inl (ErrSetLeverage ''refused''), u2)"
    unfolding u2_def using open_long_run(5) by (simp add: prod_eq_iff)
  have "OpenLong no_leverage_env example_trader ''ETHUSDT'' (round_float64 (1 / 100)) 10 =
      (Inl (ErrSetLeverage ''refused''), u2)"
    using OpenLong_leverage_then_order [OF nolev, of "round_float64 (1 / 100)", THEN conjunct1, THEN spec,
        THEN mp, OF refl, THEN conjunct1] .
  then have w2: "fst (OpenLong no_leverage_env example_trader ''ETHUSDT'' (round_float64 (1 / 100)) 10) =
       Inl (ErrSetLeverage ''refused'')"
    by simp
  show ?thesis
    using w1 w2 by (rule conjI)
qed


end
